theory Spec2Isabelle
  imports Main "HOL-Library.AList"
begin

section \<open>OAuth client of the MCP TypeScript SDK (src/client/auth.ts)\<close>

text \<open>
  A shallow embedding of \<^verbatim>\<open>src/client/auth.ts\<close>. JavaScript values that may be
  \<^verbatim>\<open>undefined\<close> are options, thrown exceptions are the left summand of a sum type, and
  the mutable \<^verbatim>\<open>Headers\<close> and \<^verbatim>\<open>URLSearchParams\<close> objects are association lists that
  the functions return updated.
\<close>

subsection \<open>JavaScript strings\<close>

text \<open>\<^verbatim>\<open>s.endsWith(t)\<close>, \<^verbatim>\<open>s.startsWith(t)\<close> and \<^verbatim>\<open>s.slice(0, -1)\<close>.\<close>

definition endsWith :: "string \<Rightarrow> string \<Rightarrow> bool" where
  "endsWith s t = (length t \<le> length s \<and> drop (length s - length t) s = t)"

definition startsWith :: "string \<Rightarrow> string \<Rightarrow> bool" where
  "startsWith s t = (take (length t) s = t)"

definition slice_0_m1 :: "string \<Rightarrow> string" where
  "slice_0_m1 s = butlast s"

text \<open>\<^verbatim>\<open>s.includes(t)\<close>: \<^verbatim>\<open>t\<close> occurs in \<^verbatim>\<open>s\<close> as a contiguous substring.\<close>

fun includes_str :: "string \<Rightarrow> string \<Rightarrow> bool" where
  "includes_str [] t = (t = [])"
| "includes_str (c # s) t = (startsWith (c # s) t \<or> includes_str s t)"

text \<open>
  \<^verbatim>\<open>s.split(' ')\<close>: the pieces between single separator characters; a string without
  the separator gives one piece, and adjacent separators give an empty piece.
\<close>

fun split_on :: "char \<Rightarrow> string \<Rightarrow> string list" where
  "split_on d [] = [[]]"
| "split_on d (c # s) =
     (if c = d then [] # split_on d s
      else (case split_on d s of
              [] \<Rightarrow> [[c]]
            | p # ps \<Rightarrow> (c # p) # ps))"

text \<open>
  \<^verbatim>\<open>s.toLowerCase()\<close> on strings of bytes (Latin-1): the letters A-Z, and the accented
  capitals 0xC0-0xDE other than the multiplication sign 0xD7, move up by 32.
\<close>

definition lower_char :: "char \<Rightarrow> char" where
  "lower_char c =
     (let n = (of_char c :: nat) in
      if (65 \<le> n \<and> n \<le> 90) \<or> (192 \<le> n \<and> n \<le> 222 \<and> n \<noteq> 215)
      then char_of (n + 32) else c)"

definition toLowerCase :: "string \<Rightarrow> string" where
  "toLowerCase s = map lower_char s"

text \<open>Decimal rendering of a number, as a template literal prints it.\<close>

fun show_nat :: "nat \<Rightarrow> string" where
  "show_nat n =
     (if n < 10 then [char_of (48 + n)]
      else show_nat (n div 10) @ [char_of (48 + n mod 10)])"

declare show_nat.simps [simp del]

text \<open>
  \<^verbatim>\<open>btoa\<close>: Base64 of a string of bytes, three bytes to four characters, padded with
  \<^verbatim>\<open>=\<close>.
\<close>

definition b64_char :: "nat \<Rightarrow> char" where
  "b64_char n =
     (''ABCDEFGHIJKLMNOPQRSTUVWXYZabcdefghijklmnopqrstuvwxyz0123456789+/'') ! (n mod 64)"

fun btoa :: "string \<Rightarrow> string" where
  "btoa [] = []"
| "btoa [a] =
     (let x = (of_char a :: nat) in
      [b64_char (x div 4), b64_char ((x mod 4) * 16), CHR ''='', CHR ''=''])"
| "btoa [a, b] =
     (let x = (of_char a :: nat); y = (of_char b :: nat) in
      [b64_char (x div 4), b64_char ((x mod 4) * 16 + y div 16),
       b64_char ((y mod 16) * 4), CHR ''=''])"
| "btoa (a # b # c # r) =
     (let x = (of_char a :: nat); y = (of_char b :: nat); z = (of_char c :: nat) in
      [b64_char (x div 4), b64_char ((x mod 4) * 16 + y div 16),
       b64_char ((y mod 16) * 4 + z div 64), b64_char (z mod 64)] @ btoa r)"

subsection \<open>Headers and URLSearchParams\<close>

text \<open>
  \<^verbatim>\<open>Headers\<close>: header names are case-insensitive and stored in lower case;
  \<^verbatim>\<open>set\<close> replaces the value of a name.
\<close>

type_synonym Headers = "(string \<times> string) list"

definition Headers_set :: "string \<Rightarrow> string \<Rightarrow> Headers \<Rightarrow> Headers" where
  "Headers_set name v h = AList.update (toLowerCase name) v h"

definition Headers_get :: "Headers \<Rightarrow> string \<Rightarrow> string option" where
  "Headers_get h name = map_of h (toLowerCase name)"

definition Headers_new :: "(string \<times> string) list \<Rightarrow> Headers" where
  "Headers_new init = foldl (\<lambda>h (k, v). Headers_set k v h) [] init"

text \<open>
  \<^verbatim>\<open>URLSearchParams\<close>: an ordered list of name and value pairs. \<^verbatim>\<open>set\<close> writes the
  first pair of that name and removes the later ones, or appends when there is none;
  \<^verbatim>\<open>append\<close> always adds a pair at the end.
\<close>

type_synonym URLSearchParams = "(string \<times> string) list"

fun params_set :: "string \<Rightarrow> string \<Rightarrow> URLSearchParams \<Rightarrow> URLSearchParams" where
  "params_set k v [] = [(k, v)]"
| "params_set k v ((k', v') # ps) =
     (if k' = k then (k, v) # filter (\<lambda>p. fst p \<noteq> k) ps
      else (k', v') # params_set k v ps)"

definition params_append :: "string \<Rightarrow> string \<Rightarrow> URLSearchParams \<Rightarrow> URLSearchParams" where
  "params_append k v ps = ps @ [(k, v)]"

subsection \<open>Errors\<close>

text \<open>
  Every \<^verbatim>\<open>throw\<close> of the module is a value. \<^verbatim>\<open>new Error(message)\<close> is \<open>Error\<close> of
  the message, one constructor for each message of the source with the values its
  template interpolates. The subclasses of \<^verbatim>\<open>OAuthError\<close> are told apart by their
  error code. \<open>TypeError\<close> is what the platform throws (a failed fetch, an invalid
  URL); \<open>Thrown\<close> is any other value an embedder's callback throws.
\<close>

datatype message =
    BasicRequiresSecret
  | NoProtectedResourceMetadata
  | HttpLoadingProtectedResource nat
  | CorsLoadingMetadata string string
  | HttpLoadingMetadata nat string string
  | IncompatibleOIDC string
  | IncompatibleResponseType string
  | IncompatibleChallengeMethod string
  | IncompatibleGrantType string
  | IncompatibleNoRegistration
  | ClientInformationRequired
  | ClientInformationNotSaveable
  | ResourceMismatch string string

datatype exn =
    Error message
  | TypeError string
  | SyntaxError
  | ZodError
  | OAuthError string string "string option"
  | Thrown string

subsection \<open>Client authentication (selectClientAuthMethod, applyClientAuthentication)\<close>

record OAuthClientInformation =
  client_id :: string
  client_secret :: "string option"

datatype ClientAuthMethod = client_secret_basic | client_secret_post | none

definition selectClientAuthMethod ::
    "OAuthClientInformation \<Rightarrow> string list \<Rightarrow> ClientAuthMethod" where
  "selectClientAuthMethod clientInformation supportedMethods =
     (let hasClientSecret = (client_secret clientInformation \<noteq> None) in
      if length supportedMethods = 0 then
        (if hasClientSecret then client_secret_post else none)
      else if hasClientSecret \<and> ''client_secret_basic'' \<in> set supportedMethods then
        client_secret_basic
      else if hasClientSecret \<and> ''client_secret_post'' \<in> set supportedMethods then
        client_secret_post
      else if ''none'' \<in> set supportedMethods then none
      else (if hasClientSecret then client_secret_post else none))"

text \<open>
  JavaScript truthiness of \<^verbatim>\<open>string | undefined\<close>: \<^verbatim>\<open>undefined\<close> and the empty string
  are falsy.
\<close>

definition truthy :: "string option \<Rightarrow> bool" where
  "truthy s = (case s of None \<Rightarrow> False | Some v \<Rightarrow> v \<noteq> [])"

definition applyBasicAuth :: "string \<Rightarrow> string option \<Rightarrow> Headers \<Rightarrow> exn + Headers" where
  "applyBasicAuth clientId clientSecret headers =
     (if \<not> truthy clientSecret then Inl (Error BasicRequiresSecret)
      else
        let credentials = btoa (clientId @ '':'' @ the clientSecret) in
        Inr (Headers_set ''Authorization'' (''Basic '' @ credentials) headers))"

definition applyPostAuth ::
    "string \<Rightarrow> string option \<Rightarrow> URLSearchParams \<Rightarrow> URLSearchParams" where
  "applyPostAuth clientId clientSecret params =
     (let params = params_set ''client_id'' clientId params in
      if truthy clientSecret then params_set ''client_secret'' (the clientSecret) params
      else params)"

definition applyPublicAuth :: "string \<Rightarrow> URLSearchParams \<Rightarrow> URLSearchParams" where
  "applyPublicAuth clientId params = params_set ''client_id'' clientId params"

definition applyClientAuthentication ::
    "ClientAuthMethod \<Rightarrow> OAuthClientInformation \<Rightarrow> Headers \<Rightarrow> URLSearchParams
      \<Rightarrow> exn + (Headers \<times> URLSearchParams)" where
  "applyClientAuthentication method clientInformation headers params =
     (case method of
        client_secret_basic \<Rightarrow>
          (case applyBasicAuth (client_id clientInformation)
                  (client_secret clientInformation) headers of
             Inl e \<Rightarrow> Inl e
           | Inr h \<Rightarrow> Inr (h, params))
      | client_secret_post \<Rightarrow>
          Inr (headers, applyPostAuth (client_id clientInformation)
                  (client_secret clientInformation) params)
      | none \<Rightarrow> Inr (headers, applyPublicAuth (client_id clientInformation) params))"

subsection \<open>URLs\<close>

text \<open>
  The platform's \<^verbatim>\<open>URL\<close> class, for URLs that have a host
  (\<^verbatim>\<open>https://host:port/path?query#fragment\<close>). A URL object holds its parts as the
  parser of the URL Standard leaves them: \<open>scheme\<close> without the colon, \<open>host\<close> with the
  port when there is one (a default port is never kept), \<open>pathname\<close> beginning with a
  slash, the query as the list of pairs that \<^verbatim>\<open>searchParams\<close> shows, and \<open>hash\<close> with
  its number sign or empty.
\<close>

record URL =
  scheme :: string
  host :: string
  pathname :: string
  searchParams :: URLSearchParams
  hash :: string

text \<open>
  \<^verbatim>\<open>url.origin\<close>. Only the schemes \<^verbatim>\<open>http\<close>, \<^verbatim>\<open>https\<close>, \<^verbatim>\<open>ws\<close>, \<^verbatim>\<open>wss\<close> and \<^verbatim>\<open>ftp\<close>
  have an origin made of scheme, host and port; for a URL of any other scheme the getter
  returns the string \<^verbatim>\<open>null\<close>.
\<close>

definition tuple_origin_schemes :: "string list" where
  "tuple_origin_schemes = [''http'', ''https'', ''ws'', ''wss'', ''ftp'']"

definition origin :: "URL \<Rightarrow> string" where
  "origin u =
     (if scheme u \<in> set tuple_origin_schemes then scheme u @ ''://'' @ host u else ''null'')"

text \<open>Joining strings with a separator, \<^verbatim>\<open>parts.join(sep)\<close>.\<close>

fun join :: "string \<Rightarrow> string list \<Rightarrow> string" where
  "join sep [] = []"
| "join sep [x] = x"
| "join sep (x # y # ys) = x @ sep @ join sep (y # ys)"

definition search :: "URL \<Rightarrow> string" where
  "search u =
     (if searchParams u = [] then []
      else ''?'' @ join ''&'' (map (\<lambda>(k, v). k @ ''='' @ v) (searchParams u)))"

definition href :: "URL \<Rightarrow> string" where
  "href u = scheme u @ ''://'' @ host u @ pathname u @ search u @ hash u"

text \<open>
  \<^verbatim>\<open>new URL(s)\<close> for a string \<open>s\<close> is the parser of the URL Standard. It belongs to the
  platform, not to this module, and is a parameter here: a function from a string to
  the URL object, or to the \<^verbatim>\<open>TypeError\<close> that \<^verbatim>\<open>new URL\<close> throws. Every function
  below that parses a string takes the platform as its first argument.
\<close>

record platform =
  URL_parse :: "string \<Rightarrow> exn + URL"

text \<open>An argument of type \<^verbatim>\<open>string | URL\<close>, and \<^verbatim>\<open>new URL(x)\<close> of it.\<close>

datatype StringOrURL = Str string | Url URL

definition URL_new :: "'a platform_scheme \<Rightarrow> StringOrURL \<Rightarrow> exn + URL" where
  "URL_new E x = (case x of Str s \<Rightarrow> URL_parse E s | Url u \<Rightarrow> Inr u)"

text \<open>\<^verbatim>\<open>String(x)\<close> of such an argument.\<close>

definition String_of :: "StringOrURL \<Rightarrow> string" where
  "String_of x = (case x of Str s \<Rightarrow> s | Url u \<Rightarrow> href u)"

text \<open>
  The references that this module resolves against a base are paths: a fixed path, or
  one put together with the \<^verbatim>\<open>pathname\<close> of a URL object, which the parser has left in
  its final form. \<open>URL_tail\<close> reads such a reference into the parts after the host: the
  path up to a question mark or number sign, then query and fragment.
\<close>

definition is_delim :: "char \<Rightarrow> bool" where
  "is_delim c = (c = CHR ''/'' \<or> c = CHR ''?'' \<or> c = CHR ''#'')"

definition is_qf :: "char \<Rightarrow> bool" where
  "is_qf c = (c = CHR ''?'' \<or> c = CHR ''#'')"

definition parse_pair :: "string \<Rightarrow> string \<times> string" where
  "parse_pair s =
     (takeWhile (\<lambda>c. c \<noteq> CHR ''='') s, drop 1 (dropWhile (\<lambda>c. c \<noteq> CHR ''='') s))"

definition parse_query :: "string \<Rightarrow> URLSearchParams" where
  "parse_query q = map parse_pair (filter (\<lambda>p. p \<noteq> []) (split_on CHR ''&'' q))"

definition URL_tail :: "string \<Rightarrow> string \<Rightarrow> string \<Rightarrow> URL" where
  "URL_tail sch h t =
     (let p = takeWhile (\<lambda>c. \<not> is_qf c) t;
          r = dropWhile (\<lambda>c. \<not> is_qf c) t;
          q = (if startsWith r ''?'' then takeWhile (\<lambda>c. c \<noteq> CHR ''#'') (drop 1 r) else []);
          f = dropWhile (\<lambda>c. c \<noteq> CHR ''#'') r
      in \<lparr>scheme = sch, host = h,
          pathname = (if p = [] then ''/'' else p),
          searchParams = parse_query q,
          hash = (if f = ''#'' then [] else f)\<rparr>)"

text \<open>
  \<^verbatim>\<open>new URL(ref, base)\<close> for a reference without a scheme. The base is parsed first.
  A reference that begins with two slashes is a network-path reference: only the
  scheme comes from the base, and the result is what the parser makes of that scheme, a
  colon and the reference. A reference that begins with one slash replaces path, query
  and fragment of the base. Any other reference is read relative to the directory of
  the base's path. (Every reference this module builds begins with a slash.)
\<close>

definition directory :: "string \<Rightarrow> string" where
  "directory p = rev (dropWhile (\<lambda>c. c \<noteq> CHR ''/'') (rev p))"

definition URL_resolve :: "'a platform_scheme \<Rightarrow> string \<Rightarrow> StringOrURL \<Rightarrow> exn + URL" where
  "URL_resolve E ref base =
     (case URL_new E base of
        Inl e \<Rightarrow> Inl e
      | Inr b \<Rightarrow>
          if startsWith ref ''//'' then URL_parse E (scheme b @ '':'' @ ref)
          else if startsWith ref ''/'' then Inr (URL_tail (scheme b) (host b) ref)
          else Inr (URL_tail (scheme b) (host b) (directory (pathname b) @ ref)))"

text \<open>Sequencing of computations that may throw.\<close>

definition bindE :: "exn + 'a \<Rightarrow> ('a \<Rightarrow> exn + 'b) \<Rightarrow> exn + 'b" where
  "bindE m f = (case m of Inl e \<Rightarrow> Inl e | Inr x \<Rightarrow> f x)"

subsection \<open>The discovery URL builder (buildDiscoveryUrls)\<close>

datatype metadata_type = oauth | oidc

record DiscoveryUrl =
  url :: URL
  type :: metadata_type

definition buildDiscoveryUrls ::
    "'a platform_scheme \<Rightarrow> StringOrURL \<Rightarrow> exn + DiscoveryUrl list" where
  "buildDiscoveryUrls E authorizationServerUrl =
     bindE (URL_new E authorizationServerUrl) (\<lambda>u.
       let hasPath = (pathname u \<noteq> ''/'') in
       if \<not> hasPath then
         bindE (URL_resolve E ''/.well-known/oauth-authorization-server'' (Str (origin u))) (\<lambda>u1.
         bindE (URL_resolve E ''/.well-known/openid-configuration'' (Str (origin u))) (\<lambda>u2.
           Inr [\<lparr>url = u1, type = oauth\<rparr>, \<lparr>url = u2, type = oidc\<rparr>]))
       else
         let pathname = (if endsWith (pathname u) ''/'' then slice_0_m1 (pathname u)
                         else pathname u) in
         bindE (URL_resolve E (''/.well-known/oauth-authorization-server'' @ pathname)
                  (Str (origin u))) (\<lambda>u1.
         bindE (URL_resolve E ''/.well-known/oauth-authorization-server'' (Str (origin u))) (\<lambda>u2.
         bindE (URL_resolve E (''/.well-known/openid-configuration'' @ pathname)
                  (Str (origin u))) (\<lambda>u3.
         bindE (URL_resolve E (pathname @ ''/.well-known/openid-configuration'')
                  (Str (origin u))) (\<lambda>u4.
           Inr [\<lparr>url = u1, type = oauth\<rparr>, \<lparr>url = u2, type = oauth\<rparr>,
                \<lparr>url = u3, type = oidc\<rparr>, \<lparr>url = u4, type = oidc\<rparr>])))))"

text \<open>
  What the parser guarantees of a URL object with a host: the scheme is in lower case
  and has no colon, the host is in lower case, not empty and free of delimiters, and
  the path begins with a slash and holds neither a question mark nor a number sign.
\<close>

definition wf_URL :: "URL \<Rightarrow> bool" where
  "wf_URL u =
     (scheme u \<noteq> [] \<and> CHR '':'' \<notin> set (scheme u) \<and> toLowerCase (scheme u) = scheme u
      \<and> host u \<noteq> [] \<and> list_all (\<lambda>c. \<not> is_delim c) (host u) \<and> toLowerCase (host u) = host u
      \<and> startsWith (pathname u) ''/'' \<and> list_all (\<lambda>c. \<not> is_qf c) (pathname u))"

text \<open>
  The URL of the root of the site of a URL: what the parser returns for the origin of a
  URL whose scheme is one of those with an origin of scheme, host and port.
\<close>

definition origin_URL :: "URL \<Rightarrow> URL" where
  "origin_URL u =
     \<lparr>scheme = scheme u, host = host u, pathname = ''/'', searchParams = [], hash = []\<rparr>"

text \<open>The path with a trailing slash stripped, as buildDiscoveryUrls computes it.\<close>

definition strip_trailing_slash :: "string \<Rightarrow> string" where
  "strip_trailing_slash p = (if endsWith p ''/'' then slice_0_m1 p else p)"

text \<open>The result of buildDiscoveryUrls with each URL written out (its \<^verbatim>\<open>href\<close>).\<close>

definition listing :: "exn + DiscoveryUrl list \<Rightarrow> exn + (string \<times> metadata_type) list" where
  "listing r = (case r of Inl e \<Rightarrow> Inl e | Inr l \<Rightarrow> Inr (map (\<lambda>e. (href (url e), type e)) l))"

subsection \<open>HTTP responses\<close>

text \<open>
  A parsed JSON value. Numbers are carried, never computed with. An object is the list
  of its members; a name is looked up with \<open>map_of\<close>.
\<close>

datatype json =
    JNull
  | JBool bool
  | JNumber int
  | JString string
  | JArray "json list"
  | JObject "(string \<times> json) list"

text \<open>
  A \<^verbatim>\<open>Response\<close>: its status, its headers, and its body as \<^verbatim>\<open>response.json()\<close> reads
  it, \<open>None\<close> when the body is not JSON and the call throws a \<^verbatim>\<open>SyntaxError\<close>.
\<close>

record Response =
  status :: nat
  headers :: Headers
  body :: "json option"

definition ok :: "Response \<Rightarrow> bool" where
  "ok r = (200 \<le> status r \<and> status r \<le> 299)"

definition Response_json :: "Response \<Rightarrow> exn + json" where
  "Response_json r = (case body r of None \<Rightarrow> Inl SyntaxError | Some j \<Rightarrow> Inr j)"

subsection \<open>The WWW-Authenticate challenge (extractResourceMetadataUrl)\<close>

definition resource_metadata_eq_quote :: string where
  "resource_metadata_eq_quote = ''resource_metadata='' @ [CHR 0x22]"

text \<open>
  \<^verbatim>\<open>/resource_metadata="([^"]*)"/.exec(s)\<close>, giving the captured group: at the leftmost
  place where the literal stands and a closing quote follows, the characters up to
  that quote.
\<close>

fun regex_exec :: "string \<Rightarrow> string option" where
  "regex_exec [] = None"
| "regex_exec (c # s) =
     (let after = drop (length resource_metadata_eq_quote) (c # s) in
      if startsWith (c # s) resource_metadata_eq_quote \<and> CHR 0x22 \<in> set after
      then Some (takeWhile (\<lambda>x. x \<noteq> CHR 0x22) after)
      else regex_exec s)"

text \<open>
  The function catches what \<^verbatim>\<open>new URL\<close> throws; the result type keeps the exception
  summand so that "it does not throw" is a statement about the function. The
  destructuring \<^verbatim>\<open>[type, scheme] = header.split(' ')\<close> leaves \<^verbatim>\<open>scheme\<close> undefined
  when there is one piece, and \<^verbatim>\<open>type.toLowerCase()\<close> would throw were there none.
\<close>

definition extractResourceMetadataUrl ::
    "'a platform_scheme \<Rightarrow> Response \<Rightarrow> exn + URL option" where
  "extractResourceMetadataUrl E res =
     (let authenticateHeader = Headers_get (headers res) ''WWW-Authenticate'' in
      if \<not> truthy authenticateHeader then Inr None
      else
        (case split_on CHR '' '' (the authenticateHeader) of
           [] \<Rightarrow> Inl (TypeError ''Cannot read properties of undefined'')
         | type' # rest \<Rightarrow>
             let scheme' = (case rest of [] \<Rightarrow> None | s # _ \<Rightarrow> Some s) in
             if toLowerCase type' \<noteq> ''bearer'' \<or> \<not> truthy scheme' then Inr None
             else
               (case regex_exec (the authenticateHeader) of
                  None \<Rightarrow> Inr None
                | Some m \<Rightarrow>
                    (case URL_parse E m of
                       Inl e \<Rightarrow> Inr None
                     | Inr u \<Rightarrow> Inr (Some u)))))"

text \<open>
  The pieces of a challenge, as the claim speaks of them: the text before the first
  space, and the text between the first space and the next.
\<close>

definition first_piece :: "string \<Rightarrow> string" where
  "first_piece h = takeWhile (\<lambda>c. c \<noteq> CHR '' '') h"

definition second_piece :: "string \<Rightarrow> string" where
  "second_piece h = takeWhile (\<lambda>c. c \<noteq> CHR '' '') (drop 1 (dropWhile (\<lambda>c. c \<noteq> CHR '' '') h))"

text \<open>
  The parameters of a challenge, as the claim about this function speaks of them; the
  definitions from here to the end of this subsection follow the words of the claim,
  not the source. After its scheme a challenge lists parameters \<^verbatim>\<open>name=value\<close>,
  separated by commas and white space, and a value may be a quoted string, which ends at
  the next double quote. A \<^verbatim>\<open>resource_metadata="..."\<close> parameter begins at a place
  outside the quoted strings, directly after a space, a tab or a comma, where the text
  \<^verbatim>\<open>resource_metadata="\<close> stands and a closing quote follows; its value is the text up
  to that quote. \<open>spec_parameter_values\<close> reads a header from the left, knowing
  whether it is inside a quoted string and whether the character before was a
  separator, and lists these values in their order.
\<close>

definition is_separator :: "char \<Rightarrow> bool" where
  "is_separator c = (c = CHR '' '' \<or> c = CHR 0x09 \<or> c = CHR '','')"

fun spec_parameter_values :: "bool \<Rightarrow> bool \<Rightarrow> string \<Rightarrow> string list" where
  "spec_parameter_values quoted start [] = []"
| "spec_parameter_values quoted start (c # s) =
     (let after = drop (length resource_metadata_eq_quote) (c # s) in
      (if \<not> quoted \<and> start \<and> startsWith (c # s) resource_metadata_eq_quote
          \<and> CHR 0x22 \<in> set after
       then [takeWhile (\<lambda>x. x \<noteq> CHR 0x22) after] else [])
      @ spec_parameter_values (if c = CHR 0x22 then \<not> quoted else quoted) (is_separator c) s)"

definition spec_resource_metadata_parameters :: "string \<Rightarrow> string list" where
  "spec_resource_metadata_parameters h = spec_parameter_values False False h"

text \<open>
  The regular expression of the source is not anchored: it matches the text
  \<^verbatim>\<open>resource_metadata="..."\<close> wherever it stands, also at the end of a longer parameter
  name and inside a quoted string. \<open>first_match_at_parameter h\<close> says that the first
  match in \<open>h\<close>, if there is one, is at the beginning of a parameter.
\<close>

fun match_at_parameter :: "bool \<Rightarrow> bool \<Rightarrow> string \<Rightarrow> bool" where
  "match_at_parameter quoted start [] = True"
| "match_at_parameter quoted start (c # s) =
     (let after = drop (length resource_metadata_eq_quote) (c # s) in
      if startsWith (c # s) resource_metadata_eq_quote \<and> CHR 0x22 \<in> set after
      then \<not> quoted \<and> start
      else match_at_parameter (if c = CHR 0x22 then \<not> quoted else quoted) (is_separator c) s)"

definition first_match_at_parameter :: "string \<Rightarrow> bool" where
  "first_match_at_parameter h = match_at_parameter False False h"


subsection \<open>Effects: the session, the network, and awaiting\<close>

text \<open>
  The functions below perform HTTP requests and call back into the embedder's
  provider. Both are effects on a world that is passed along explicitly: \<open>session\<close> is
  whatever state the provider owns, \<open>requests\<close> is the list of the HTTP requests issued
  so far, oldest first, and \<open>challenges\<close> counts the PKCE pairs drawn.

  Each request is logged with the function of this module whose \<^verbatim>\<open>fetch\<close> call issued
  it, and with the fetch function it was issued through: the global \<^verbatim>\<open>fetch\<close>, or the
  \<^verbatim>\<open>fetchFn\<close> that the caller supplied.
\<close>

datatype FetchLike = global_fetch | custom_fetch

datatype call_site =
    in_fetchWithCorsRetry
  | in_exchangeAuthorization
  | in_refreshAuthorization
  | in_registerClient

record OAuthClientMetadata =
  redirect_uris :: "string list"
  scope :: "string option"
  token_endpoint_auth_method :: "string option"

datatype RequestBody = FormBody URLSearchParams | JsonBody OAuthClientMetadata

record Request =
  target :: URL
  http_method :: string
  init_headers :: "Headers option"
  init_body :: "RequestBody option"

record 'p world =
  session :: 'p
  requests :: "(call_site \<times> FetchLike \<times> Request) list"
  challenges :: nat

type_synonym ('p, 'a) io = "'p world \<Rightarrow> (exn + 'a) \<times> 'p world"

definition return :: "'a \<Rightarrow> ('p, 'a) io" where
  "return x = (\<lambda>w. (Inr x, w))"

definition throw :: "exn \<Rightarrow> ('p, 'a) io" where
  "throw e = (\<lambda>w. (Inl e, w))"

text \<open>\<^verbatim>\<open>const x = await m; rest\<close>: a rejected promise ends the function with its error.\<close>

definition await :: "('p, 'a) io \<Rightarrow> ('a \<Rightarrow> ('p, 'b) io) \<Rightarrow> ('p, 'b) io" where
  "await m f = (\<lambda>w. case m w of (Inl e, w') \<Rightarrow> (Inl e, w') | (Inr x, w') \<Rightarrow> f x w')"

text \<open>\<^verbatim>\<open>try { m } catch (error) { h }\<close>: the handler runs in the world the body left.\<close>

definition try_catch :: "('p, 'a) io \<Rightarrow> (exn \<Rightarrow> ('p, 'a) io) \<Rightarrow> ('p, 'a) io" where
  "try_catch m h = (\<lambda>w. case m w of (Inl e, w') \<Rightarrow> h e w' | (Inr x, w') \<Rightarrow> (Inr x, w'))"

text \<open>A computation without effects that may throw.\<close>

definition lift :: "exn + 'a \<Rightarrow> ('p, 'a) io" where
  "lift r = (\<lambda>w. (r, w))"

text \<open>A call of a provider method: it reads and writes the session, and may throw.\<close>

definition provider_call :: "('p \<Rightarrow> (exn + 'a) \<times> 'p) \<Rightarrow> ('p, 'a) io" where
  "provider_call m = (\<lambda>w. case m (session w) of (r, s') \<Rightarrow> (r, w\<lparr>session := s'\<rparr>))"

text \<open>
  What the module takes from outside: an environment extends the platform. \<open>net\<close> is
  the behaviour of the fetch functions: the answer to a request, a response or a thrown
  exception, given how many requests were issued before it and which fetch function is
  asked. \<open>pkce\<close> is the generator of
  PKCE pairs (code verifier, code challenge) of the \<^verbatim>\<open>pkce-challenge\<close> package, by the
  number of pairs drawn before. The remaining fields are parts of this repository that
  are not among the sources at hand and are therefore parameters: the constant
  \<^verbatim>\<open>LATEST_PROTOCOL_VERSION\<close> of \<^verbatim>\<open>types.ts\<close>, four schemas of \<^verbatim>\<open>shared/auth.ts\<close>, and
  the two helpers of \<^verbatim>\<open>shared/auth-utils.ts\<close>.
\<close>

record OAuthClientInformationFull = OAuthClientInformation +
  registered :: OAuthClientMetadata

record AuthorizationServerMetadata =
  authorization_endpoint :: string
  token_endpoint :: string
  registration_endpoint :: "string option"
  response_types_supported :: "string list"
  grant_types_supported :: "string list option"
  code_challenge_methods_supported :: "string list option"
  token_endpoint_auth_methods_supported :: "string list option"

record OAuthProtectedResourceMetadata =
  resource :: string
  authorization_servers :: "string list option"

record env = platform +
  net :: "nat \<Rightarrow> FetchLike \<Rightarrow> Request \<Rightarrow> exn + Response"
  pkce :: "nat \<Rightarrow> string \<times> string"
  LATEST_PROTOCOL_VERSION :: string
  OAuthMetadataSchema :: "json \<Rightarrow> exn + AuthorizationServerMetadata"
  OpenIdProviderDiscoveryMetadataSchema :: "json \<Rightarrow> exn + AuthorizationServerMetadata"
  OAuthProtectedResourceMetadataSchema :: "json \<Rightarrow> exn + OAuthProtectedResourceMetadata"
  OAuthClientInformationFullSchema :: "json \<Rightarrow> exn + OAuthClientInformationFull"
  resourceUrlFromServerUrl :: "StringOrURL \<Rightarrow> exn + URL"
  checkResourceAllowed :: "URL \<Rightarrow> string \<Rightarrow> exn + bool"

text \<open>
  \<^verbatim>\<open>await f(url, init)\<close> for a fetch function \<open>f\<close>: the request is logged, and the answer
  is the one \<open>net\<close> gives at this point.
\<close>

definition fetch_call ::
    "env \<Rightarrow> call_site \<Rightarrow> FetchLike \<Rightarrow> Request \<Rightarrow> ('p, Response) io" where
  "fetch_call E site f req =
     (\<lambda>w. (net E (length (requests w)) f req,
           w\<lparr>requests := requests w @ [(site, f, req)]\<rparr>))"

text \<open>\<^verbatim>\<open>fetchFn ?? fetch\<close>, and the default parameter \<^verbatim>\<open>fetchFn: FetchLike = fetch\<close>.\<close>

definition or_fetch :: "FetchLike option \<Rightarrow> FetchLike" where
  "or_fetch fetchFn = (case fetchFn of None \<Rightarrow> global_fetch | Some f \<Rightarrow> f)"

definition is_TypeError :: "exn \<Rightarrow> bool" where
  "is_TypeError e = (case e of TypeError _ \<Rightarrow> True | _ \<Rightarrow> False)"

subsection \<open>Fetching metadata (fetchWithCorsRetry, discoverMetadataWithFallback)\<close>

text \<open>
  fetchWithCorsRetry calls itself once, without headers, after a \<^verbatim>\<open>TypeError\<close> of a
  request that had headers; the two equations are the call with headers and the call
  without.
\<close>

function fetchWithCorsRetry ::
    "env \<Rightarrow> URL \<Rightarrow> Headers option \<Rightarrow> FetchLike \<Rightarrow> ('p, Response option) io" where
  "fetchWithCorsRetry E u None fetchFn =
     try_catch
       (await (fetch_call E in_fetchWithCorsRetry fetchFn
                 \<lparr>target = u, http_method = ''GET'', init_headers = None, init_body = None\<rparr>)
          (\<lambda>r. return (Some r)))
       (\<lambda>error. if is_TypeError error then return None else throw error)"
| "fetchWithCorsRetry E u (Some h) fetchFn =
     try_catch
       (await (fetch_call E in_fetchWithCorsRetry fetchFn
                 \<lparr>target = u, http_method = ''GET'', init_headers = Some h, init_body = None\<rparr>)
          (\<lambda>r. return (Some r)))
       (\<lambda>error. if is_TypeError error then fetchWithCorsRetry E u None fetchFn
                else throw error)"
  by pat_completeness auto
termination
  by (relation "measure (\<lambda>(E, u, h, f). case h of None \<Rightarrow> 0 | Some _ \<Rightarrow> Suc 0)") auto

datatype wellKnownPrefix =
  oauth_authorization_server | oauth_protected_resource | openid_configuration

definition prefix_text :: "wellKnownPrefix \<Rightarrow> string" where
  "prefix_text p =
     (case p of oauth_authorization_server \<Rightarrow> ''oauth-authorization-server''
      | oauth_protected_resource \<Rightarrow> ''oauth-protected-resource''
      | openid_configuration \<Rightarrow> ''openid-configuration'')"

definition buildWellKnownPath :: "wellKnownPrefix \<Rightarrow> string \<Rightarrow> bool \<Rightarrow> string" where
  "buildWellKnownPath wellKnownPrefix pathname0 prependPathname =
     (let pathname = (if endsWith pathname0 ''/'' then slice_0_m1 pathname0 else pathname0) in
      if prependPathname then pathname @ ''/.well-known/'' @ prefix_text wellKnownPrefix
      else ''/.well-known/'' @ prefix_text wellKnownPrefix @ pathname)"

definition tryMetadataDiscovery ::
    "env \<Rightarrow> URL \<Rightarrow> string \<Rightarrow> FetchLike \<Rightarrow> ('p, Response option) io" where
  "tryMetadataDiscovery E u protocolVersion fetchFn =
     fetchWithCorsRetry E u (Some [(''MCP-Protocol-Version'', protocolVersion)]) fetchFn"

definition shouldAttemptFallback :: "Response option \<Rightarrow> string \<Rightarrow> bool" where
  "shouldAttemptFallback response pathname' =
     (response = None \<or> (status (the response) = 404 \<and> pathname' \<noteq> ''/''))"

text \<open>Truthiness of an optional \<^verbatim>\<open>string | URL\<close>: an empty string is falsy.\<close>

definition truthy_su :: "StringOrURL option \<Rightarrow> bool" where
  "truthy_su x = (case x of None \<Rightarrow> False | Some (Str s) \<Rightarrow> s \<noteq> [] | Some (Url _) \<Rightarrow> True)"

record discovery_opts =
  protocolVersion :: "string option"
  metadataUrl :: "StringOrURL option"
  metadataServerUrl :: "StringOrURL option"

definition discoverMetadataWithFallback ::
    "env \<Rightarrow> StringOrURL \<Rightarrow> wellKnownPrefix \<Rightarrow> FetchLike \<Rightarrow> discovery_opts
      \<Rightarrow> ('p, Response option) io" where
  "discoverMetadataWithFallback E serverUrl wellKnownType fetchFn opts =
     await (lift (URL_new E serverUrl)) (\<lambda>issuer.
       let pv = (case protocolVersion opts of None \<Rightarrow> LATEST_PROTOCOL_VERSION E | Some v \<Rightarrow> v) in
       await (lift
         (if truthy_su (metadataUrl opts) then URL_new E (the (metadataUrl opts))
          else
            let wellKnownPath = buildWellKnownPath wellKnownType (pathname issuer) False in
            bindE (URL_resolve E wellKnownPath
                     (case metadataServerUrl opts of None \<Rightarrow> Url issuer | Some b \<Rightarrow> b))
              (\<lambda>u. Inr (u\<lparr>searchParams := searchParams issuer\<rparr>)))) (\<lambda>u.
       await (tryMetadataDiscovery E u pv fetchFn) (\<lambda>response.
         if \<not> truthy_su (metadataUrl opts) \<and> shouldAttemptFallback response (pathname issuer)
         then
           await (lift (URL_resolve E (''/.well-known/'' @ prefix_text wellKnownType) (Url issuer)))
             (\<lambda>rootUrl. tryMetadataDiscovery E rootUrl pv fetchFn)
         else return response)))"

record resource_opts =
  r_protocolVersion :: "string option"
  resourceMetadataUrl :: "StringOrURL option"

definition discoverOAuthProtectedResourceMetadata ::
    "env \<Rightarrow> StringOrURL \<Rightarrow> resource_opts option \<Rightarrow> FetchLike option
      \<Rightarrow> ('p, OAuthProtectedResourceMetadata) io" where
  "discoverOAuthProtectedResourceMetadata E serverUrl opts fetchFn =
     await (discoverMetadataWithFallback E serverUrl oauth_protected_resource (or_fetch fetchFn)
              \<lparr>protocolVersion = (case opts of None \<Rightarrow> None | Some x \<Rightarrow> r_protocolVersion x),
               metadataUrl = (case opts of None \<Rightarrow> None | Some x \<Rightarrow> resourceMetadataUrl x),
               metadataServerUrl = None\<rparr>) (\<lambda>response.
       if response = None \<or> status (the response) = 404 then
         throw (Error NoProtectedResourceMetadata)
       else if \<not> ok (the response) then
         throw (Error (HttpLoadingProtectedResource (status (the response))))
       else
         await (lift (Response_json (the response))) (\<lambda>j.
           lift (OAuthProtectedResourceMetadataSchema E j)))"


subsection \<open>Notions for stating the properties of metadata discovery\<close>

text \<open>
  A \<^verbatim>\<open>GET\<close> request as fetchWithCorsRetry issues it, the world with one more request
  logged, the case of discoverOAuthProtectedResourceMetadata in which no
  \<^verbatim>\<open>resourceMetadataUrl\<close> overrides the well-known URLs, the protocol version it sends,
  and the two URLs it derives from a server URL: the path-aware one, which keeps the
  query of the server URL, and the one at the root.
\<close>

definition get_request :: "URL \<Rightarrow> Headers option \<Rightarrow> Request" where
  "get_request u h = \<lparr>target = u, http_method = ''GET'', init_headers = h, init_body = None\<rparr>"

definition logged :: "call_site \<times> FetchLike \<times> Request \<Rightarrow> 'p world \<Rightarrow> 'p world" where
  "logged c w = w\<lparr>requests := requests w @ [c]\<rparr>"

definition no_override :: "resource_opts option \<Rightarrow> bool" where
  "no_override opts =
     (\<not> truthy_su (case opts of None \<Rightarrow> None | Some x \<Rightarrow> resourceMetadataUrl x))"

definition version_of :: "env \<Rightarrow> resource_opts option \<Rightarrow> string" where
  "version_of E opts =
     (case (case opts of None \<Rightarrow> None | Some x \<Rightarrow> r_protocolVersion x) of
        None \<Rightarrow> LATEST_PROTOCOL_VERSION E | Some v \<Rightarrow> v)"

definition path_aware_url :: "URL \<Rightarrow> URL" where
  "path_aware_url issuer =
     \<lparr>scheme = scheme issuer, host = host issuer,
      pathname = ''/.well-known/oauth-protected-resource'' @ strip_trailing_slash (pathname issuer),
      searchParams = searchParams issuer, hash = []\<rparr>"

definition root_url :: "URL \<Rightarrow> URL" where
  "root_url issuer =
     \<lparr>scheme = scheme issuer, host = host issuer,
      pathname = ''/.well-known/oauth-protected-resource'', searchParams = [], hash = []\<rparr>"

text \<open>What discoverOAuthProtectedResourceMetadata makes of the last response.\<close>

definition verdict :: "env \<Rightarrow> Response option \<Rightarrow> exn + OAuthProtectedResourceMetadata" where
  "verdict E response =
     (case response of
        None \<Rightarrow> Inl (Error NoProtectedResourceMetadata)
      | Some r \<Rightarrow>
          if status r = 404 then Inl (Error NoProtectedResourceMetadata)
          else if \<not> ok r then Inl (Error (HttpLoadingProtectedResource (status r)))
          else bindE (Response_json r) (OAuthProtectedResourceMetadataSchema E))"

subsection \<open>Reading JSON objects\<close>

text \<open>
  The value of a member of a JSON object, \<^verbatim>\<open>undefined\<close> when the value is not an object
  or has no such member, and the checks of a schema on it: a string, an optional
  string, an optional number, a list of strings, an optional list of strings. A failed
  check is the \<^verbatim>\<open>ZodError\<close> that \<^verbatim>\<open>parse\<close> throws.
\<close>

definition json_member :: "json \<Rightarrow> string \<Rightarrow> json option" where
  "json_member j k = (case j of JObject kvs \<Rightarrow> map_of kvs k | _ \<Rightarrow> None)"

definition z_string :: "json option \<Rightarrow> exn + string" where
  "z_string v = (case v of Some (JString s) \<Rightarrow> Inr s | _ \<Rightarrow> Inl ZodError)"

definition z_string_optional :: "json option \<Rightarrow> exn + string option" where
  "z_string_optional v =
     (case v of None \<Rightarrow> Inr None | Some (JString s) \<Rightarrow> Inr (Some s) | _ \<Rightarrow> Inl ZodError)"

definition z_number_optional :: "json option \<Rightarrow> exn + int option" where
  "z_number_optional v =
     (case v of None \<Rightarrow> Inr None | Some (JNumber n) \<Rightarrow> Inr (Some n) | _ \<Rightarrow> Inl ZodError)"

fun z_strings :: "json list \<Rightarrow> exn + string list" where
  "z_strings [] = Inr []"
| "z_strings (x # xs) =
     (case x of
        JString s \<Rightarrow> bindE (z_strings xs) (\<lambda>ss. Inr (s # ss))
      | _ \<Rightarrow> Inl ZodError)"

definition z_string_array :: "json option \<Rightarrow> exn + string list" where
  "z_string_array v = (case v of Some (JArray xs) \<Rightarrow> z_strings xs | _ \<Rightarrow> Inl ZodError)"

definition z_string_array_optional :: "json option \<Rightarrow> exn + string list option" where
  "z_string_array_optional v =
     (case v of
        None \<Rightarrow> Inr None
      | Some (JArray xs) \<Rightarrow> bindE (z_strings xs) (\<lambda>ss. Inr (Some ss))
      | _ \<Rightarrow> Inl ZodError)"

subsection \<open>An example environment\<close>

text \<open>
  Concrete instances of the parameters, for evaluating the functions on examples: the
  parser on the strings of the examples, schemas that read the fields this module
  consumes, a fixed PKCE pair, and a resource check that accepts a resource of the same
  origin. The network is left open.
\<close>

definition plain_URL :: "string \<Rightarrow> string \<Rightarrow> string \<Rightarrow> URL" where
  "plain_URL sch h p = \<lparr>scheme = sch, host = h, pathname = p, searchParams = [], hash = []\<rparr>"

text \<open>
  What \<^verbatim>\<open>new URL\<close> returns for the URL strings of the examples. Each has a lower-case
  scheme and host, no port, no query and no fragment, and a path that the parser keeps
  as it stands; a missing path becomes \<^verbatim>\<open>/\<close>.
\<close>

definition example_URLs :: "(string \<times> URL) list" where
  "example_URLs =
     [(''https://example.com'', plain_URL ''https'' ''example.com'' ''/''),
      (''https://example.com/tenant1/'', plain_URL ''https'' ''example.com'' ''/tenant1/''),
      (''https://example.com//tenant'', plain_URL ''https'' ''example.com'' ''//tenant''),
      (''https://example.com/.well-known/openid-configuration'',
         plain_URL ''https'' ''example.com'' ''/.well-known/openid-configuration''),
      (''https://tenant/.well-known/openid-configuration'',
         plain_URL ''https'' ''tenant'' ''/.well-known/openid-configuration''),
      (''foo://host/x'', plain_URL ''foo'' ''host'' ''/x''),
      (''https://srv.example'', plain_URL ''https'' ''srv.example'' ''/''),
      (''https://srv.example/mcp'', plain_URL ''https'' ''srv.example'' ''/mcp''),
      (''https://srv/.well-known/oauth-protected-resource'',
         plain_URL ''https'' ''srv'' ''/.well-known/oauth-protected-resource''),
      (''https://srv/x'', plain_URL ''https'' ''srv'' ''/x''),
      (''https://auth.example'', plain_URL ''https'' ''auth.example'' ''/''),
      (''https://auth.example/tenant1'', plain_URL ''https'' ''auth.example'' ''/tenant1''),
      (''https://auth.example/authorize'', plain_URL ''https'' ''auth.example'' ''/authorize''),
      (''https://auth.example/token'', plain_URL ''https'' ''auth.example'' ''/token''),
      (''https://auth.example/register'', plain_URL ''https'' ''auth.example'' ''/register''),
      (''https://app.example/callback'', plain_URL ''https'' ''app.example'' ''/callback'')]"

text \<open>
  The parser of the examples: the table, and the \<^verbatim>\<open>TypeError\<close> of \<^verbatim>\<open>new URL\<close> for any
  other string. It stands for the platform's parser on the strings that the examples
  parse: those of the table, and strings without a scheme (such as \<^verbatim>\<open>null\<close>), which
  \<^verbatim>\<open>new URL\<close> rejects.
\<close>

definition invalid_url :: exn where
  "invalid_url = TypeError ''Invalid URL''"

definition example_URL_parse :: "string \<Rightarrow> exn + URL" where
  "example_URL_parse s =
     (case map_of example_URLs s of Some u \<Rightarrow> Inr u | None \<Rightarrow> Inl invalid_url)"

definition example_platform :: platform where
  "example_platform = \<lparr>URL_parse = example_URL_parse\<rparr>"

definition example_metadata_schema :: "json \<Rightarrow> exn + AuthorizationServerMetadata" where
  "example_metadata_schema j =
     bindE (z_string (json_member j ''authorization_endpoint'')) (\<lambda>a.
     bindE (z_string (json_member j ''token_endpoint'')) (\<lambda>t.
     bindE (z_string_optional (json_member j ''registration_endpoint'')) (\<lambda>r.
     bindE (z_string_array (json_member j ''response_types_supported'')) (\<lambda>rt.
     bindE (z_string_array_optional (json_member j ''grant_types_supported'')) (\<lambda>g.
     bindE (z_string_array_optional (json_member j ''code_challenge_methods_supported'')) (\<lambda>c.
     bindE (z_string_array_optional
              (json_member j ''token_endpoint_auth_methods_supported'')) (\<lambda>m.
       Inr \<lparr>authorization_endpoint = a, token_endpoint = t, registration_endpoint = r,
            response_types_supported = rt, grant_types_supported = g,
            code_challenge_methods_supported = c,
            token_endpoint_auth_methods_supported = m\<rparr>)))))))"

definition example_resource_schema :: "json \<Rightarrow> exn + OAuthProtectedResourceMetadata" where
  "example_resource_schema j =
     bindE (z_string (json_member j ''resource'')) (\<lambda>r.
     bindE (z_string_array_optional (json_member j ''authorization_servers'')) (\<lambda>a.
       Inr \<lparr>resource = r, authorization_servers = a\<rparr>))"

definition example_client_schema :: "json \<Rightarrow> exn + OAuthClientInformationFull" where
  "example_client_schema j =
     bindE (z_string (json_member j ''client_id'')) (\<lambda>i.
     bindE (z_string_optional (json_member j ''client_secret'')) (\<lambda>s.
     bindE (z_string_array (json_member j ''redirect_uris'')) (\<lambda>r.
     bindE (z_string_optional (json_member j ''scope'')) (\<lambda>sc.
     bindE (z_string_optional (json_member j ''token_endpoint_auth_method'')) (\<lambda>m.
       Inr \<lparr>client_id = i, client_secret = s,
            registered = \<lparr>redirect_uris = r, scope = sc,
                           token_endpoint_auth_method = m\<rparr>\<rparr>)))))"

definition example_env :: "(nat \<Rightarrow> FetchLike \<Rightarrow> Request \<Rightarrow> exn + Response) \<Rightarrow> env" where
  "example_env n =
     \<lparr>URL_parse = example_URL_parse,
      net = n,
      pkce = (\<lambda>k. (''verifier-'' @ show_nat k, ''challenge-'' @ show_nat k)),
      LATEST_PROTOCOL_VERSION = ''2025-06-18'',
      OAuthMetadataSchema = example_metadata_schema,
      OpenIdProviderDiscoveryMetadataSchema = example_metadata_schema,
      OAuthProtectedResourceMetadataSchema = example_resource_schema,
      OAuthClientInformationFullSchema = example_client_schema,
      resourceUrlFromServerUrl =
        (\<lambda>x. bindE (case x of Str s \<Rightarrow> example_URL_parse s | Url u \<Rightarrow> Inr u)
                (\<lambda>u. Inr (u\<lparr>hash := []\<rparr>))),
      checkResourceAllowed =
        (\<lambda>requested configured.
           bindE (example_URL_parse configured) (\<lambda>c. Inr (origin c = origin requested)))\<rparr>"

definition fresh_world :: "'p \<Rightarrow> 'p world" where
  "fresh_world s = \<lparr>session = s, requests = [], challenges = 0\<rparr>"

text \<open>What a log shows of each request: the fetch function, the URL, and whether headers were sent.\<close>

definition shown :: "(call_site \<times> FetchLike \<times> Request) list
    \<Rightarrow> (call_site \<times> FetchLike \<times> string \<times> bool) list" where
  "shown l = map (\<lambda>(s, f, r). (s, f, href (target r), init_headers r \<noteq> None)) l"


text \<open>Two networks and a server URL for the examples.\<close>

definition always_404 :: "nat \<Rightarrow> FetchLike \<Rightarrow> Request \<Rightarrow> exn + Response" where
  "always_404 n f r = Inr \<lparr>status = 404, headers = [], body = None\<rparr>"

definition always_failing :: "nat \<Rightarrow> FetchLike \<Rightarrow> Request \<Rightarrow> exn + Response" where
  "always_failing n f r = Inl (TypeError ''Failed to fetch'')"

definition srv_mcp :: URL where
  "srv_mcp = \<lparr>scheme = ''https'', host = ''srv.example'', pathname = ''/mcp'',
              searchParams = [], hash = []\<rparr>"

subsection \<open>Authorization server metadata discovery (discoverAuthorizationServerMetadata)\<close>

text \<open>The words the error messages use for the two kinds of candidate.\<close>

definition kind_text :: "metadata_type \<Rightarrow> string" where
  "kind_text t = (case t of oauth \<Rightarrow> ''OAuth'' | oidc \<Rightarrow> ''OpenID provider'')"

text \<open>\<^verbatim>\<open>metadata.code_challenge_methods_supported?.includes('S256')\<close>, as a truth value.\<close>

definition supports_S256 :: "AuthorizationServerMetadata \<Rightarrow> bool" where
  "supports_S256 metadata =
     (case code_challenge_methods_supported metadata of
        None \<Rightarrow> False
      | Some l \<Rightarrow> ''S256'' \<in> set l)"

text \<open>
  The loop \<^verbatim>\<open>for (const { url: endpointUrl, type } of urlsToTry)\<close>: \<^verbatim>\<open>continue\<close> is the
  recursive call on the remaining candidates, and leaving the loop returns
  \<^verbatim>\<open>undefined\<close>.
\<close>

fun tryEachUrl ::
    "env \<Rightarrow> Headers \<Rightarrow> FetchLike \<Rightarrow> DiscoveryUrl list
      \<Rightarrow> ('p, AuthorizationServerMetadata option) io" where
  "tryEachUrl E hdrs fetchFn [] = return None"
| "tryEachUrl E hdrs fetchFn (c # urlsToTry) =
     await (fetchWithCorsRetry E (url c) (Some hdrs) fetchFn) (\<lambda>response.
       if response = None then
         throw (Error (CorsLoadingMetadata (kind_text (type c)) (href (url c))))
       else if \<not> ok (the response) then
         (if 400 \<le> status (the response) \<and> status (the response) < 500
          then tryEachUrl E hdrs fetchFn urlsToTry
          else throw (Error (HttpLoadingMetadata (status (the response))
                               (kind_text (type c)) (href (url c)))))
       else if type c = oauth then
         await (lift (Response_json (the response))) (\<lambda>j.
         await (lift (OAuthMetadataSchema E j)) (\<lambda>metadata.
           return (Some metadata)))
       else
         await (lift (Response_json (the response))) (\<lambda>j.
         await (lift (OpenIdProviderDiscoveryMetadataSchema E j)) (\<lambda>metadata.
           if \<not> supports_S256 metadata then throw (Error (IncompatibleOIDC (href (url c))))
           else return (Some metadata))))"

record server_discovery_opts =
  sd_fetchFn :: "FetchLike option"
  sd_protocolVersion :: "string option"

definition discoverAuthorizationServerMetadata ::
    "env \<Rightarrow> StringOrURL \<Rightarrow> server_discovery_opts
      \<Rightarrow> ('p, AuthorizationServerMetadata option) io" where
  "discoverAuthorizationServerMetadata E authorizationServerUrl opts =
     (let fetchFn = or_fetch (sd_fetchFn opts);
          pv = (case sd_protocolVersion opts of
                  None \<Rightarrow> LATEST_PROTOCOL_VERSION E | Some v \<Rightarrow> v);
          hdrs = [(''MCP-Protocol-Version'', pv)]
      in await (lift (buildDiscoveryUrls E authorizationServerUrl)) (\<lambda>urlsToTry.
           tryEachUrl E hdrs fetchFn urlsToTry))"




subsection \<open>OAuth error responses (parseErrorResponse)\<close>

text \<open>
  Modelled from the spec: \<^verbatim>\<open>OAUTH_ERRORS\<close> of \<^verbatim>\<open>server/auth/errors.ts\<close>, which is not
  among the sources at hand. The spec lists the error codes of RFC 6749 that have an
  error class of their own; its further "extensions" are not named and are left out.
\<close>

definition OAUTH_ERRORS :: "string list" where
  "OAUTH_ERRORS =
     [''invalid_request'', ''invalid_client'', ''invalid_grant'', ''unauthorized_client'',
      ''unsupported_grant_type'', ''invalid_scope'', ''access_denied'',
      ''unsupported_response_type'', ''server_error'', ''temporarily_unavailable'']"

text \<open>
  Modelled from the spec: \<^verbatim>\<open>OAuthErrorResponseSchema\<close> of \<^verbatim>\<open>shared/auth.ts\<close>, the error
  body \<^verbatim>\<open>{ error: string, error_description?: string, error_uri?: string }\<close>.
\<close>

definition OAuthErrorResponseSchema :: "json \<Rightarrow> exn + string \<times> string option \<times> string option" where
  "OAuthErrorResponseSchema j =
     (case j of
        JObject _ \<Rightarrow>
          bindE (z_string (json_member j ''error'')) (\<lambda>e.
          bindE (z_string_optional (json_member j ''error_description'')) (\<lambda>d.
          bindE (z_string_optional (json_member j ''error_uri'')) (\<lambda>u.
            Inr (e, d, u))))
      | _ \<Rightarrow> Inl ZodError)"

text \<open>
  An instance of the error class of a code is \<open>OAuthError\<close> of that code; a code without
  a class gives a \<^verbatim>\<open>ServerError\<close>, whose code is \<^verbatim>\<open>server_error\<close>. The message of the
  fallback \<^verbatim>\<open>ServerError\<close> is kept up to the raw body, which a response here does not
  carry as text.
\<close>

definition parseErrorResponse :: "Response \<Rightarrow> exn" where
  "parseErrorResponse input =
     (case bindE (Response_json input) OAuthErrorResponseSchema of
        Inr (error, error_description, error_uri) \<Rightarrow>
          OAuthError (if error \<in> set OAUTH_ERRORS then error else ''server_error'')
            (if truthy error_description then the error_description else [])
            error_uri
      | Inl e \<Rightarrow>
          OAuthError ''server_error''
            ((if status input \<noteq> 0 then ''HTTP '' @ show_nat (status input) @ '': '' else [])
               @ ''Invalid OAuth error response'')
            None)"

definition is_OAuthError :: "exn \<Rightarrow> bool" where
  "is_OAuthError e = (case e of OAuthError _ _ _ \<Rightarrow> True | _ \<Rightarrow> False)"

definition has_code :: "string \<Rightarrow> exn \<Rightarrow> bool" where
  "has_code c e = (case e of OAuthError c' _ _ \<Rightarrow> c' = c | _ \<Rightarrow> False)"

definition is_ServerError :: "exn \<Rightarrow> bool" where
  "is_ServerError e = has_code ''server_error'' e"

definition is_InvalidClientError :: "exn \<Rightarrow> bool" where
  "is_InvalidClientError e = has_code ''invalid_client'' e"

definition is_UnauthorizedClientError :: "exn \<Rightarrow> bool" where
  "is_UnauthorizedClientError e = has_code ''unauthorized_client'' e"

definition is_InvalidGrantError :: "exn \<Rightarrow> bool" where
  "is_InvalidGrantError e = has_code ''invalid_grant'' e"

subsection \<open>Tokens\<close>

record OAuthTokens =
  access_token :: string
  token_type :: string
  expires_in :: "int option"
  granted_scope :: "string option"
  refresh_token :: "string option"

text \<open>
  Modelled from the spec: \<^verbatim>\<open>OAuthTokensSchema\<close> of \<^verbatim>\<open>shared/auth.ts\<close>. The spec gives
  the fields \<^verbatim>\<open>access_token\<close> (string), optional \<^verbatim>\<open>refresh_token\<close>, \<^verbatim>\<open>token_type\<close>,
  \<^verbatim>\<open>expires_in\<close> and \<^verbatim>\<open>scope\<close>; \<^verbatim>\<open>token_type\<close> is read as required, as in RFC 6749.
  A member that is present must have the type of its field, and other members are
  dropped.
\<close>

definition OAuthTokensSchema :: "json \<Rightarrow> exn + OAuthTokens" where
  "OAuthTokensSchema j =
     (case j of
        JObject _ \<Rightarrow>
          bindE (z_string (json_member j ''access_token'')) (\<lambda>a.
          bindE (z_string (json_member j ''token_type'')) (\<lambda>t.
          bindE (z_number_optional (json_member j ''expires_in'')) (\<lambda>x.
          bindE (z_string_optional (json_member j ''scope'')) (\<lambda>s.
          bindE (z_string_optional (json_member j ''refresh_token'')) (\<lambda>r.
            Inr \<lparr>access_token = a, token_type = t, expires_in = x, granted_scope = s,
                 refresh_token = r\<rparr>)))))
      | _ \<Rightarrow> Inl ZodError)"

text \<open>
  The own enumerable properties of a JSON value, which a spread \<^verbatim>\<open>...value\<close> copies: the
  members of an object, the elements of an array and the characters of a string under
  their indices, nothing for a number, a boolean or \<^verbatim>\<open>null\<close>.
\<close>

definition own_properties :: "json \<Rightarrow> (string \<times> json) list" where
  "own_properties j =
     (case j of
        JObject kvs \<Rightarrow> kvs
      | JArray xs \<Rightarrow> map (\<lambda>i. (show_nat i, xs ! i)) [0..<length xs]
      | JString s \<Rightarrow> map (\<lambda>i. (show_nat i, JString [s ! i])) [0..<length s]
      | _ \<Rightarrow> [])"

text \<open>
  The object literal \<^verbatim>\<open>{ refresh_token: refreshToken, ...value }\<close>. A member is looked
  up with \<open>map_of\<close>, which takes the first pair of a name; the properties of the spread
  value stand first, since a later property of a literal overwrites an earlier one.
\<close>

definition with_refresh_token :: "string \<Rightarrow> json \<Rightarrow> json" where
  "with_refresh_token refreshToken j =
     JObject (own_properties j @ [(''refresh_token'', JString refreshToken)])"

subsection \<open>The flow primitives\<close>

text \<open>\<^verbatim>\<open>await pkceChallenge()\<close>: the next pair of the generator.\<close>

definition pkceChallenge :: "env \<Rightarrow> ('p, string \<times> string) io" where
  "pkceChallenge E = (\<lambda>w. (Inr (pkce E (challenges w)), w\<lparr>challenges := Suc (challenges w)\<rparr>))"

definition startAuthorization ::
    "env \<Rightarrow> StringOrURL \<Rightarrow> AuthorizationServerMetadata option \<Rightarrow> OAuthClientInformation
      \<Rightarrow> StringOrURL \<Rightarrow> string option \<Rightarrow> string option \<Rightarrow> URL option
      \<Rightarrow> ('p, URL \<times> string) io" where
  "startAuthorization E authorizationServerUrl metadata clientInformation' redirectUrl'
       scope' state' resource' =
     (let responseType = ''code''; codeChallengeMethod = ''S256'' in
      await (lift
        (case metadata of
           Some m \<Rightarrow>
             bindE (URL_parse E (authorization_endpoint m)) (\<lambda>authorizationUrl.
               if responseType \<notin> set (response_types_supported m) then
                 Inl (Error (IncompatibleResponseType responseType))
               else if code_challenge_methods_supported m = None
                       \<or> codeChallengeMethod \<notin> set (the (code_challenge_methods_supported m))
               then Inl (Error (IncompatibleChallengeMethod codeChallengeMethod))
               else Inr authorizationUrl)
         | None \<Rightarrow> URL_resolve E ''/authorize'' authorizationServerUrl)) (\<lambda>authorizationUrl.
      await (pkceChallenge E) (\<lambda>challenge.
        let codeVerifier' = fst challenge;
            codeChallenge = snd challenge;
            q = searchParams authorizationUrl;
            q = params_set ''response_type'' responseType q;
            q = params_set ''client_id'' (client_id clientInformation') q;
            q = params_set ''code_challenge'' codeChallenge q;
            q = params_set ''code_challenge_method'' codeChallengeMethod q;
            q = params_set ''redirect_uri'' (String_of redirectUrl') q;
            q = (if truthy state' then params_set ''state'' (the state') q else q);
            q = (if truthy scope' then params_set ''scope'' (the scope') q else q);
            q = (if (case scope' of None \<Rightarrow> False
                     | Some s \<Rightarrow> includes_str s ''offline_access'')
                 then params_append ''prompt'' ''consent'' q else q);
            q = (if resource' \<noteq> None then params_set ''resource'' (href (the resource')) q
                 else q)
        in return (authorizationUrl\<lparr>searchParams := q\<rparr>, codeVerifier'))))"

text \<open>
  The provider's optional \<^verbatim>\<open>addClientAuthentication\<close>: it may change the headers and the
  parameters it is given, or throw. (The source calls it without awaiting it.)
\<close>

type_synonym AddClientAuthentication =
  "Headers \<Rightarrow> URLSearchParams \<Rightarrow> StringOrURL \<Rightarrow> AuthorizationServerMetadata option
    \<Rightarrow> exn + (Headers \<times> URLSearchParams)"

text \<open>
  The client authentication of a token request, which exchangeAuthorization and
  refreshAuthorization spell out alike: the provider's method when there is one, and
  otherwise the method that selectClientAuthMethod picks.
\<close>

definition authenticate ::
    "AddClientAuthentication option \<Rightarrow> Headers \<Rightarrow> URLSearchParams \<Rightarrow> StringOrURL
      \<Rightarrow> AuthorizationServerMetadata option \<Rightarrow> OAuthClientInformation
      \<Rightarrow> exn + (Headers \<times> URLSearchParams)" where
  "authenticate addClientAuthentication' hdrs params authorizationServerUrl metadata
       clientInformation' =
     (case addClientAuthentication' of
        Some hook \<Rightarrow> hook hdrs params authorizationServerUrl metadata
      | None \<Rightarrow>
          let supportedMethods =
                (case metadata of
                   None \<Rightarrow> []
                 | Some m \<Rightarrow> (case token_endpoint_auth_methods_supported m of
                               None \<Rightarrow> [] | Some l \<Rightarrow> l));
              authMethod = selectClientAuthMethod clientInformation' supportedMethods
          in applyClientAuthentication authMethod clientInformation' hdrs params)"

definition post_request :: "URL \<Rightarrow> Headers \<Rightarrow> RequestBody \<Rightarrow> Request" where
  "post_request u h b =
     \<lparr>target = u, http_method = ''POST'', init_headers = Some h, init_body = Some b\<rparr>"

definition exchangeAuthorization ::
    "env \<Rightarrow> StringOrURL \<Rightarrow> AuthorizationServerMetadata option \<Rightarrow> OAuthClientInformation
      \<Rightarrow> string \<Rightarrow> string \<Rightarrow> StringOrURL \<Rightarrow> URL option \<Rightarrow> AddClientAuthentication option
      \<Rightarrow> FetchLike option \<Rightarrow> ('p, OAuthTokens) io" where
  "exchangeAuthorization E authorizationServerUrl metadata clientInformation'
       authorizationCode' codeVerifier' redirectUri resource' addClientAuthentication' fetchFn' =
     (let grantType = ''authorization_code'' in
      await (lift
        (bindE (case metadata of
                  None \<Rightarrow> URL_resolve E ''/token'' authorizationServerUrl
                | Some m \<Rightarrow>
                    if token_endpoint m \<noteq> [] then URL_parse E (token_endpoint m)
                    else URL_resolve E ''/token'' authorizationServerUrl) (\<lambda>tokenUrl.
         if (case metadata of
               None \<Rightarrow> False
             | Some m \<Rightarrow> (case grant_types_supported m of
                           None \<Rightarrow> False | Some l \<Rightarrow> grantType \<notin> set l))
         then Inl (Error (IncompatibleGrantType grantType))
         else
           let hdrs = Headers_new [(''Content-Type'', ''application/x-www-form-urlencoded''),
                                   (''Accept'', ''application/json'')];
               params = [(''grant_type'', grantType), (''code'', authorizationCode'),
                         (''code_verifier'', codeVerifier'),
                         (''redirect_uri'', String_of redirectUri)]
           in bindE (authenticate addClientAuthentication' hdrs params authorizationServerUrl
                       metadata clientInformation') (\<lambda>(hdrs, params).
                let params = (if resource' \<noteq> None
                              then params_set ''resource'' (href (the resource')) params
                              else params)
                in Inr (tokenUrl, hdrs, params))))) (\<lambda>(tokenUrl, hdrs, params).
      await (fetch_call E in_exchangeAuthorization (or_fetch fetchFn')
               (post_request tokenUrl hdrs (FormBody params))) (\<lambda>response.
        if \<not> ok response then throw (parseErrorResponse response)
        else await (lift (Response_json response)) (\<lambda>j. lift (OAuthTokensSchema j)))))"

definition refreshAuthorization ::
    "env \<Rightarrow> StringOrURL \<Rightarrow> AuthorizationServerMetadata option \<Rightarrow> OAuthClientInformation
      \<Rightarrow> string \<Rightarrow> URL option \<Rightarrow> AddClientAuthentication option
      \<Rightarrow> FetchLike option \<Rightarrow> ('p, OAuthTokens) io" where
  "refreshAuthorization E authorizationServerUrl metadata clientInformation'
       refreshToken resource' addClientAuthentication' fetchFn' =
     (let grantType = ''refresh_token'' in
      await (lift
        (bindE (case metadata of
                  Some m \<Rightarrow>
                    bindE (URL_parse E (token_endpoint m)) (\<lambda>tokenUrl.
                      if (case grant_types_supported m of
                            None \<Rightarrow> False | Some l \<Rightarrow> grantType \<notin> set l)
                      then Inl (Error (IncompatibleGrantType grantType))
                      else Inr tokenUrl)
                | None \<Rightarrow> URL_resolve E ''/token'' authorizationServerUrl) (\<lambda>tokenUrl.
           let hdrs = Headers_new [(''Content-Type'', ''application/x-www-form-urlencoded'')];
               params = [(''grant_type'', grantType), (''refresh_token'', refreshToken)]
           in bindE (authenticate addClientAuthentication' hdrs params authorizationServerUrl
                       metadata clientInformation') (\<lambda>(hdrs, params).
                let params = (if resource' \<noteq> None
                              then params_set ''resource'' (href (the resource')) params
                              else params)
                in Inr (tokenUrl, hdrs, params))))) (\<lambda>(tokenUrl, hdrs, params).
      await (fetch_call E in_refreshAuthorization (or_fetch fetchFn')
               (post_request tokenUrl hdrs (FormBody params))) (\<lambda>response.
        if \<not> ok response then throw (parseErrorResponse response)
        else await (lift (Response_json response)) (\<lambda>j.
               lift (OAuthTokensSchema (with_refresh_token refreshToken j))))))"

definition registerClient ::
    "env \<Rightarrow> StringOrURL \<Rightarrow> AuthorizationServerMetadata option \<Rightarrow> OAuthClientMetadata
      \<Rightarrow> FetchLike option \<Rightarrow> ('p, OAuthClientInformationFull) io" where
  "registerClient E authorizationServerUrl metadata clientMetadata' fetchFn' =
     await (lift
       (case metadata of
          Some m \<Rightarrow>
            if \<not> truthy (registration_endpoint m) then Inl (Error IncompatibleNoRegistration)
            else URL_parse E (the (registration_endpoint m))
        | None \<Rightarrow> URL_resolve E ''/register'' authorizationServerUrl)) (\<lambda>registrationUrl.
     await (fetch_call E in_registerClient (or_fetch fetchFn')
              (post_request registrationUrl [(''Content-Type'', ''application/json'')]
                 (JsonBody clientMetadata'))) (\<lambda>response.
       if \<not> ok response then throw (parseErrorResponse response)
       else await (lift (Response_json response)) (\<lambda>j.
              lift (OAuthClientInformationFullSchema E j))))"


text \<open>A token endpoint that answers every request with new tokens and no refresh token.\<close>

definition refresh_without_rotation :: "nat \<Rightarrow> FetchLike \<Rightarrow> Request \<Rightarrow> exn + Response" where
  "refresh_without_rotation n f r =
     Inr \<lparr>status = 200, headers = [],
          body = Some (JObject [(''access_token'', JString ''A2''),
                                (''token_type'', JString ''Bearer'')])\<rparr>"

text \<open>
  The URL that startAuthorization starts from: the authorization endpoint of the
  metadata, or \<^verbatim>\<open>/authorize\<close> resolved against the server URL.
\<close>

definition authorization_base ::
    "'a platform_scheme \<Rightarrow> StringOrURL \<Rightarrow> AuthorizationServerMetadata option \<Rightarrow> exn + URL" where
  "authorization_base E authorizationServerUrl metadata =
     (case metadata of
        Some m \<Rightarrow> URL_parse E (authorization_endpoint m)
      | None \<Rightarrow> URL_resolve E ''/authorize'' authorizationServerUrl)"

text \<open>Metadata and a client for the examples.\<close>

definition example_metadata :: AuthorizationServerMetadata where
  "example_metadata =
     \<lparr>authorization_endpoint = ''https://auth.example/authorize'',
      token_endpoint = ''https://auth.example/token'',
      registration_endpoint = Some ''https://auth.example/register'',
      response_types_supported = [''code''],
      grant_types_supported = None,
      code_challenge_methods_supported = Some [''S256''],
      token_endpoint_auth_methods_supported = Some [''client_secret_basic'']\<rparr>"

definition example_client :: OAuthClientInformation where
  "example_client = \<lparr>client_id = ''abc'', client_secret = Some ''shh''\<rparr>"

subsection \<open>The provider and the orchestrator (auth, authInternal)\<close>

datatype AuthResult = AUTHORIZED | REDIRECT

datatype credential_scope = scope_all | scope_client | scope_tokens | scope_verifier

text \<open>
  The interface \<^verbatim>\<open>OAuthClientProvider\<close>, over a session state of type \<open>'p\<close> that the
  embedder owns. A method reads and writes the session and may throw; an optional
  method is an option.
\<close>

record 'p OAuthClientProvider =
  redirectUrl :: StringOrURL
  clientMetadata :: OAuthClientMetadata
  state :: "('p \<Rightarrow> (exn + string) \<times> 'p) option"
  clientInformation :: "'p \<Rightarrow> (exn + OAuthClientInformation option) \<times> 'p"
  saveClientInformation :: "(OAuthClientInformationFull \<Rightarrow> 'p \<Rightarrow> (exn + unit) \<times> 'p) option"
  tokens :: "'p \<Rightarrow> (exn + OAuthTokens option) \<times> 'p"
  saveTokens :: "OAuthTokens \<Rightarrow> 'p \<Rightarrow> (exn + unit) \<times> 'p"
  redirectToAuthorization :: "URL \<Rightarrow> 'p \<Rightarrow> (exn + unit) \<times> 'p"
  saveCodeVerifier :: "string \<Rightarrow> 'p \<Rightarrow> (exn + unit) \<times> 'p"
  codeVerifier :: "'p \<Rightarrow> (exn + string) \<times> 'p"
  addClientAuthentication :: "AddClientAuthentication option"
  validateResourceURL :: "(URL \<Rightarrow> string option \<Rightarrow> 'p \<Rightarrow> (exn + URL option) \<times> 'p) option"
  invalidateCredentials :: "(credential_scope \<Rightarrow> 'p \<Rightarrow> (exn + unit) \<times> 'p) option"

record auth_options =
  serverUrl :: StringOrURL
  authorizationCode :: "string option"
  scope_option :: "string option"
  resourceMetadataUrl_option :: "URL option"
  fetchFn :: "FetchLike option"

definition selectResourceURL ::
    "env \<Rightarrow> StringOrURL \<Rightarrow> 'p OAuthClientProvider \<Rightarrow> OAuthProtectedResourceMetadata option
      \<Rightarrow> ('p, URL option) io" where
  "selectResourceURL E serverUrl' provider resourceMetadata =
     await (lift (resourceUrlFromServerUrl E serverUrl')) (\<lambda>defaultResource.
       case validateResourceURL provider of
         Some validate \<Rightarrow>
           provider_call (validate defaultResource (map_option resource resourceMetadata))
       | None \<Rightarrow>
           (case resourceMetadata of
              None \<Rightarrow> return None
            | Some rm \<Rightarrow>
                await (lift (checkResourceAllowed E defaultResource (resource rm))) (\<lambda>allowed.
                  if \<not> allowed then
                    throw (Error (ResourceMismatch (resource rm) (href defaultResource)))
                  else await (lift (URL_parse E (resource rm))) (\<lambda>u. return (Some u)))))"

text \<open>
  authInternal. The first \<^verbatim>\<open>try\<close> block leaves the resource metadata and the first
  authorization server it names, and \<^verbatim>\<open>catch\<close> ignores every error. In the refresh
  branch a \<^verbatim>\<open>return\<close> inside \<^verbatim>\<open>try\<close> ends the function (\<open>Some\<close> of the result), and an
  error that is swallowed lets it go on to a new authorization (\<open>None\<close>).
\<close>

definition authInternal ::
    "env \<Rightarrow> 'p OAuthClientProvider \<Rightarrow> auth_options \<Rightarrow> ('p, AuthResult) io" where
  "authInternal E provider options =
     await (try_catch
              (await (discoverOAuthProtectedResourceMetadata E (serverUrl options)
                        (Some \<lparr>r_protocolVersion = None,
                               resourceMetadataUrl =
                                 map_option Url (resourceMetadataUrl_option options)\<rparr>)
                        (fetchFn options)) (\<lambda>resourceMetadata.
                 return (Some resourceMetadata,
                         (case authorization_servers resourceMetadata of
                            Some (a # _) \<Rightarrow> Some a
                          | _ \<Rightarrow> None))))
              (\<lambda>error. return (None, None))) (\<lambda>(resourceMetadata, found).
     let authorizationServerUrl =
           (case found of
              Some a \<Rightarrow> if a \<noteq> [] then Str a else serverUrl options
            | None \<Rightarrow> serverUrl options) in
     await (selectResourceURL E (serverUrl options) provider resourceMetadata) (\<lambda>resource'.
     await (discoverAuthorizationServerMetadata E authorizationServerUrl
              \<lparr>sd_fetchFn = fetchFn options, sd_protocolVersion = None\<rparr>) (\<lambda>metadata.
     await (provider_call (clientInformation provider)) (\<lambda>loaded.
     await (case loaded of
              Some info \<Rightarrow> return info
            | None \<Rightarrow>
                if authorizationCode options \<noteq> None then
                  throw (Error ClientInformationRequired)
                else
                  (case saveClientInformation provider of
                     None \<Rightarrow> throw (Error ClientInformationNotSaveable)
                   | Some save \<Rightarrow>
                       await (registerClient E authorizationServerUrl metadata
                                (clientMetadata provider) None) (\<lambda>fullInformation.
                       await (provider_call (save fullInformation)) (\<lambda>_.
                         return (OAuthClientInformation.truncate fullInformation)))))
       (\<lambda>clientInformation'.
     if authorizationCode options \<noteq> None then
       await (provider_call (codeVerifier provider)) (\<lambda>codeVerifier'.
       await (exchangeAuthorization E authorizationServerUrl metadata clientInformation'
                (the (authorizationCode options)) codeVerifier' (redirectUrl provider)
                resource' (addClientAuthentication provider) (fetchFn options)) (\<lambda>tokens'.
       await (provider_call (saveTokens provider tokens')) (\<lambda>_.
         return AUTHORIZED)))
     else
       await (provider_call (tokens provider)) (\<lambda>tokens'.
       await (if (case tokens' of None \<Rightarrow> False | Some t \<Rightarrow> truthy (refresh_token t)) then
                try_catch
                  (await (refreshAuthorization E authorizationServerUrl metadata
                            clientInformation' (the (refresh_token (the tokens'))) resource'
                            (addClientAuthentication provider) None) (\<lambda>newTokens.
                   await (provider_call (saveTokens provider newTokens)) (\<lambda>_.
                     return (Some AUTHORIZED))))
                  (\<lambda>error. if \<not> is_OAuthError error \<or> is_ServerError error
                            then return None else throw error)
              else return None) (\<lambda>finished.
         case finished of
           Some result \<Rightarrow> return result
         | None \<Rightarrow>
             await (case state provider of
                      Some st \<Rightarrow> await (provider_call st) (\<lambda>s. return (Some s))
                    | None \<Rightarrow> return None) (\<lambda>state'.
             await (startAuthorization E authorizationServerUrl metadata clientInformation'
                      (redirectUrl provider)
                      (if truthy (scope_option options) then scope_option options
                       else scope (clientMetadata provider))
                      state' resource') (\<lambda>(authorizationUrl, codeVerifier').
             await (provider_call (saveCodeVerifier provider codeVerifier')) (\<lambda>_.
             await (provider_call (redirectToAuthorization provider authorizationUrl)) (\<lambda>_.
               return REDIRECT)))))))))))"

text \<open>\<^verbatim>\<open>await provider.invalidateCredentials?.(scope)\<close>: nothing when the provider has no
  such method.\<close>

definition invalidate :: "'p OAuthClientProvider \<Rightarrow> credential_scope \<Rightarrow> ('p, unit) io" where
  "invalidate provider sc =
     (case invalidateCredentials provider of
        None \<Rightarrow> return ()
      | Some method \<Rightarrow> provider_call (method sc))"

definition auth :: "env \<Rightarrow> 'p OAuthClientProvider \<Rightarrow> auth_options \<Rightarrow> ('p, AuthResult) io" where
  "auth E provider options =
     try_catch (authInternal E provider options) (\<lambda>error.
       if is_InvalidClientError error \<or> is_UnauthorizedClientError error then
         await (invalidate provider scope_all) (\<lambda>_. authInternal E provider options)
       else if is_InvalidGrantError error then
         await (invalidate provider scope_tokens) (\<lambda>_. authInternal E provider options)
       else throw error)"

subsection \<open>An example provider\<close>

text \<open>A provider that keeps the session in a record, and a server for it.\<close>

record store =
  stored_client :: "OAuthClientInformation option"
  stored_tokens :: "OAuthTokens option"
  stored_verifier :: "string option"
  redirected_to :: "URL option"

definition example_provider :: "store OAuthClientProvider" where
  "example_provider =
     \<lparr>redirectUrl = Str ''https://app.example/callback'',
      clientMetadata = \<lparr>redirect_uris = [''https://app.example/callback''], scope = None,
                        token_endpoint_auth_method = None\<rparr>,
      state = None,
      clientInformation = (\<lambda>s. (Inr (stored_client s), s)),
      saveClientInformation =
        Some (\<lambda>full s. (Inr (), s\<lparr>stored_client := Some (OAuthClientInformation.truncate full)\<rparr>)),
      tokens = (\<lambda>s. (Inr (stored_tokens s), s)),
      saveTokens = (\<lambda>t s. (Inr (), s\<lparr>stored_tokens := Some t\<rparr>)),
      redirectToAuthorization = (\<lambda>u s. (Inr (), s\<lparr>redirected_to := Some u\<rparr>)),
      saveCodeVerifier = (\<lambda>v s. (Inr (), s\<lparr>stored_verifier := Some v\<rparr>)),
      codeVerifier =
        (\<lambda>s. (case stored_verifier s of
                 None \<Rightarrow> Inl (Thrown ''no code verifier'')
               | Some v \<Rightarrow> Inr v, s)),
      addClientAuthentication = None,
      validateResourceURL = None,
      invalidateCredentials =
        Some (\<lambda>sc s.
          (Inr (),
           case sc of
             scope_all \<Rightarrow> s\<lparr>stored_client := None, stored_tokens := None,
                             stored_verifier := None\<rparr>
           | scope_client \<Rightarrow> s\<lparr>stored_client := None\<rparr>
           | scope_tokens \<Rightarrow> s\<lparr>stored_tokens := None\<rparr>
           | scope_verifier \<Rightarrow> s\<lparr>stored_verifier := None\<rparr>))\<rparr>"

definition metadata_document :: json where
  "metadata_document =
     JObject [(''authorization_endpoint'', JString ''https://auth.example/authorize''),
              (''token_endpoint'', JString ''https://auth.example/token''),
              (''response_types_supported'', JArray [JString ''code'']),
              (''code_challenge_methods_supported'', JArray [JString ''S256''])]"

text \<open>
  A server without protected resource metadata that serves its authorization server
  metadata at the root and rejects every token request with \<^verbatim>\<open>invalid_grant\<close>.
\<close>

definition rejecting_server :: "nat \<Rightarrow> FetchLike \<Rightarrow> Request \<Rightarrow> exn + Response" where
  "rejecting_server n f r =
     (if http_method r = ''POST'' then
        Inr \<lparr>status = 400, headers = [],
             body = Some (JObject [(''error'', JString ''invalid_grant'')])\<rparr>
      else if pathname (target r) = ''/.well-known/oauth-authorization-server'' then
        Inr \<lparr>status = 200, headers = [], body = Some metadata_document\<rparr>
      else Inr \<lparr>status = 404, headers = [], body = None\<rparr>)"

definition session_with_tokens :: store where
  "session_with_tokens =
     \<lparr>stored_client = Some example_client,
      stored_tokens = Some \<lparr>access_token = ''A1'', token_type = ''Bearer'', expires_in = None,
                            granted_scope = None, refresh_token = Some ''R1''\<rparr>,
      stored_verifier = None, redirected_to = None\<rparr>"

definition example_options :: auth_options where
  "example_options =
     \<lparr>serverUrl = Str ''https://srv.example/mcp'', authorizationCode = None,
      scope_option = None, resourceMetadataUrl_option = None,
      fetchFn = Some custom_fetch\<rparr>"


subsection \<open>Which fetch function a request goes through\<close>

text \<open>
  \<open>issues P m\<close>: whatever the world, the computation \<open>m\<close> only adds requests to the log,
  and every request it adds satisfies \<open>P\<close>.
\<close>

definition issues :: "(call_site \<times> FetchLike \<times> Request \<Rightarrow> bool) \<Rightarrow> ('p, 'a) io \<Rightarrow> bool" where
  "issues P m = (\<forall>w. \<exists>new. requests (snd (m w)) = requests w @ new \<and> list_all P new)"



section \<open>Properties\<close>

subsection \<open>The client authentication selector\<close>

text \<open>
  C2. For every client information and every list of methods the server advertises,
  the selector follows the decision table: with an empty list, \<open>client_secret_post\<close>
  when the client has a secret and \<open>none\<close> when it has not; with
  \<open>client_secret_basic\<close> in the list and a secret, \<open>client_secret_basic\<close>; with
  \<open>client_secret_post\<close> but not \<open>client_secret_basic\<close> in the list and a secret,
  \<open>client_secret_post\<close>; with \<open>none\<close> in the list and neither rule above applying,
  \<open>none\<close>; in every other case \<open>client_secret_post\<close> with a secret and \<open>none\<close> without.
  It never selects \<open>client_secret_basic\<close> for a client without a secret, and applying
  \<open>client_secret_basic\<close> without a secret (an absent or an empty one) throws the error
  that says a secret is required.
\<close>

theorem selectClientAuthMethod_decision_table:
  fixes ci :: OAuthClientInformation and ms :: "string list"
  defines "secret \<equiv> client_secret ci \<noteq> None"
  defines "basic \<equiv> ''client_secret_basic'' \<in> set ms"
  defines "post \<equiv> ''client_secret_post'' \<in> set ms"
  defines "pub \<equiv> ''none'' \<in> set ms"
  shows "(ms = [] \<and> secret \<longrightarrow> selectClientAuthMethod ci ms = client_secret_post)
    \<and> (ms = [] \<and> \<not> secret \<longrightarrow> selectClientAuthMethod ci ms = none)
    \<and> (basic \<and> secret \<longrightarrow> selectClientAuthMethod ci ms = client_secret_basic)
    \<and> (post \<and> \<not> basic \<and> secret \<longrightarrow> selectClientAuthMethod ci ms = client_secret_post)
    \<and> (pub \<and> \<not> (secret \<and> (basic \<or> post)) \<longrightarrow> selectClientAuthMethod ci ms = none)
    \<and> (ms \<noteq> [] \<and> \<not> pub \<and> \<not> basic \<and> \<not> post \<and> secret
          \<longrightarrow> selectClientAuthMethod ci ms = client_secret_post)
    \<and> (ms \<noteq> [] \<and> \<not> pub \<and> \<not> secret \<longrightarrow> selectClientAuthMethod ci ms = none)
    \<and> (\<not> secret \<longrightarrow> selectClientAuthMethod ci ms \<noteq> client_secret_basic)
    \<and> (\<not> truthy (client_secret ci) \<longrightarrow>
          applyClientAuthentication client_secret_basic ci h p = Inl (Error BasicRequiresSecret))"
  unfolding secret_def basic_def post_def pub_def
  by (auto simp: selectClientAuthMethod_def applyClientAuthentication_def
      applyBasicAuth_def truthy_def)

theorem selectClientAuthMethod_decision_table_witness:
  "selectClientAuthMethod \<lparr>client_id = ''abc'', client_secret = Some ''shh''\<rparr> [] = client_secret_post
   \<and> selectClientAuthMethod \<lparr>client_id = ''abc'', client_secret = None\<rparr> [] = none
   \<and> selectClientAuthMethod \<lparr>client_id = ''abc'', client_secret = Some ''shh''\<rparr>
        [''client_secret_post'', ''client_secret_basic''] = client_secret_basic
   \<and> selectClientAuthMethod \<lparr>client_id = ''abc'', client_secret = Some ''shh''\<rparr>
        [''none'', ''client_secret_post''] = client_secret_post
   \<and> selectClientAuthMethod \<lparr>client_id = ''abc'', client_secret = None\<rparr>
        [''client_secret_basic'', ''none''] = none
   \<and> selectClientAuthMethod \<lparr>client_id = ''abc'', client_secret = Some ''shh''\<rparr>
        [''private_key_jwt''] = client_secret_post
   \<and> selectClientAuthMethod \<lparr>client_id = ''abc'', client_secret = None\<rparr>
        [''client_secret_basic''] = none
   \<and> selectClientAuthMethod \<lparr>client_id = ''abc'', client_secret = None\<rparr>
        [''client_secret_basic''] \<noteq> client_secret_basic
   \<and> applyClientAuthentication client_secret_basic
        \<lparr>client_id = ''abc'', client_secret = None\<rparr> [] [] = Inl (Error BasicRequiresSecret)"
  using selectClientAuthMethod_decision_table
          [of "[]" "\<lparr>client_id = ''abc'', client_secret = Some ''shh''\<rparr>"]
        selectClientAuthMethod_decision_table
          [of "[]" "\<lparr>client_id = ''abc'', client_secret = None\<rparr>"]
        selectClientAuthMethod_decision_table
          [of "[''client_secret_post'', ''client_secret_basic'']"
              "\<lparr>client_id = ''abc'', client_secret = Some ''shh''\<rparr>"]
        selectClientAuthMethod_decision_table
          [of "[''none'', ''client_secret_post'']"
              "\<lparr>client_id = ''abc'', client_secret = Some ''shh''\<rparr>"]
        selectClientAuthMethod_decision_table
          [of "[''client_secret_basic'', ''none'']"
              "\<lparr>client_id = ''abc'', client_secret = None\<rparr>"]
        selectClientAuthMethod_decision_table
          [of "[''private_key_jwt'']"
              "\<lparr>client_id = ''abc'', client_secret = Some ''shh''\<rparr>"]
        selectClientAuthMethod_decision_table
          [of "[''client_secret_basic'']"
              "\<lparr>client_id = ''abc'', client_secret = None\<rparr>" "[]" "[]"]
  by (simp add: truthy_def)

subsection \<open>The discovery URL builder\<close>

lemma parse_query_empty: "parse_query [] = []"
  by (simp add: parse_query_def)

lemma URL_tail_path:
  assumes "t \<noteq> []" and "list_all (\<lambda>c. \<not> is_qf c) t"
  shows "URL_tail s h t = \<lparr>scheme = s, host = h, pathname = t, searchParams = [], hash = []\<rparr>"
proof -
  have all: "\<forall>c\<in>set t. \<not> is_qf c" using assms(2) by (simp add: list_all_iff)
  have tw: "takeWhile (\<lambda>c. \<not> is_qf c) t = t" using all by (simp add: takeWhile_eq_all_conv)
  have dw: "dropWhile (\<lambda>c. \<not> is_qf c) t = []" using all by (simp add: dropWhile_eq_Nil_conv)
  show ?thesis
    using assms(1) by (simp add: URL_tail_def tw dw startsWith_def parse_query_empty)
qed

lemma URL_resolve_path:
  assumes "URL_parse E s = Inr b" and "startsWith ref ''/''" and "\<not> startsWith ref ''//''"
      and "list_all (\<lambda>c. \<not> is_qf c) ref"
  shows "URL_resolve E ref (Str s) =
           Inr \<lparr>scheme = scheme b, host = host b, pathname = ref, searchParams = [], hash = []\<rparr>"
proof -
  have "ref \<noteq> []" using assms(2) by (auto simp: startsWith_def)
  then show ?thesis
    using assms by (simp add: URL_resolve_def URL_new_def URL_tail_path)
qed

lemma URL_resolve_network_path:
  assumes "URL_parse E s = Inr b" and "startsWith ref ''//''"
  shows "URL_resolve E ref (Str s) = URL_parse E (scheme b @ '':'' @ ref)"
  using assms by (simp add: URL_resolve_def URL_new_def)

lemma URL_resolve_no_base:
  assumes "URL_parse E s = Inl e"
  shows "URL_resolve E ref (Str s) = Inl e"
  using assms by (simp add: URL_resolve_def URL_new_def)


lemma href_path:
  "href \<lparr>scheme = s, host = h, pathname = p, searchParams = [], hash = []\<rparr> = s @ ''://'' @ h @ p"
  by (simp add: href_def search_def)

lemma endsWith_single: "endsWith p [c] \<longleftrightarrow> p \<noteq> [] \<and> last p = c"
proof (cases "p = []")
  case True
  then show ?thesis by (simp add: endsWith_def)
next
  case False
  then have "drop (length p - 1) p = [last p]"
    by (induction p) (auto simp: drop_Cons' Suc_diff_le)
  with False show ?thesis
    by (cases p) (auto simp: endsWith_def)
qed

lemma strip_facts:
  assumes "startsWith p ''/''" and "p \<noteq> ''/''" and "list_all (\<lambda>c. \<not> is_qf c) p"
      and "startsWith t ''/''"
  shows "startsWith (strip_trailing_slash p) ''/''"
    and "list_all (\<lambda>c. \<not> is_qf c) (strip_trailing_slash p)"
    and "startsWith (strip_trailing_slash p @ t) ''//'' \<longleftrightarrow> startsWith p ''//''"
proof -
  obtain r where p: "p = CHR ''/'' # r" and r: "r \<noteq> []"
    using assms(1,2) by (cases p) (auto simp: startsWith_def)
  have b: "butlast p = CHR ''/'' # butlast r" using p r by simp
  show "startsWith (strip_trailing_slash p) ''/''"
    using p b by (simp add: strip_trailing_slash_def slice_0_m1_def startsWith_def)
  show "list_all (\<lambda>c. \<not> is_qf c) (strip_trailing_slash p)"
    using assms(3)
    by (auto simp: strip_trailing_slash_def slice_0_m1_def list_all_iff dest: in_set_butlastD)
  show "startsWith (strip_trailing_slash p @ t) ''//'' \<longleftrightarrow> startsWith p ''//''"
  proof (cases "endsWith p ''/''")
    case False
    then show ?thesis
      using p r by (cases r) (auto simp: strip_trailing_slash_def startsWith_def)
  next
    case True
    then have l: "last r = CHR ''/''" using p r by (simp add: endsWith_single)
    obtain c t' where t: "t = c # t'" "c = CHR ''/''"
      using assms(4) by (cases t) (auto simp: startsWith_def)
    show ?thesis
    proof (cases "butlast r = []")
      case True
      then have "r = [CHR ''/'']" using r l by (cases r) (auto split: if_splits)
      then show ?thesis
        using p t \<open>endsWith p ''/''\<close>
        by (simp add: strip_trailing_slash_def slice_0_m1_def startsWith_def)
    next
      case False
      then obtain a r' where "r = a # r'" "r' \<noteq> []" by (cases r) (auto split: if_splits)
      then show ?thesis
        using p \<open>endsWith p ''/''\<close>
        by (simp add: strip_trailing_slash_def slice_0_m1_def startsWith_def)
    qed
  qed
qed


lemma wk_refs:
  assumes "list_all (\<lambda>c. \<not> is_qf c) P"
  shows "startsWith (''/.well-known/oauth-authorization-server'' @ P) ''/''"
    and "\<not> startsWith (''/.well-known/oauth-authorization-server'' @ P) ''//''"
    and "list_all (\<lambda>c. \<not> is_qf c) (''/.well-known/oauth-authorization-server'' @ P)"
    and "startsWith (''/.well-known/openid-configuration'' @ P) ''/''"
    and "\<not> startsWith (''/.well-known/openid-configuration'' @ P) ''//''"
    and "list_all (\<lambda>c. \<not> is_qf c) (''/.well-known/openid-configuration'' @ P)"
    and "list_all (\<lambda>c. \<not> is_qf c) (P @ ''/.well-known/openid-configuration'')"
  using assms by (simp_all add: startsWith_def is_qf_def)

text \<open>The entries that do not depend on how the last reference is read.\<close>

lemma buildDiscoveryUrls_root:
  assumes "URL_new E x = Inr u" and "pathname u = ''/''"
      and "URL_parse E (origin u) = Inr (origin_URL u)"
  shows "listing (buildDiscoveryUrls E x) =
     Inr [(scheme u @ ''://'' @ host u @ ''/.well-known/oauth-authorization-server'', oauth),
          (scheme u @ ''://'' @ host u @ ''/.well-known/openid-configuration'', oidc)]"
proof -
  note b = assms(3)
  have 1: "URL_resolve E ''/.well-known/oauth-authorization-server'' (Str (origin u)) =
      Inr \<lparr>scheme = scheme u, host = host u,
           pathname = ''/.well-known/oauth-authorization-server'', searchParams = [], hash = []\<rparr>"
    using URL_resolve_path [OF b, of "''/.well-known/oauth-authorization-server''"]
    by (simp add: startsWith_def is_qf_def origin_URL_def)
  have 2: "URL_resolve E ''/.well-known/openid-configuration'' (Str (origin u)) =
      Inr \<lparr>scheme = scheme u, host = host u,
           pathname = ''/.well-known/openid-configuration'', searchParams = [], hash = []\<rparr>"
    using URL_resolve_path [OF b, of "''/.well-known/openid-configuration''"]
    by (simp add: startsWith_def is_qf_def origin_URL_def)
  have "buildDiscoveryUrls E x =
      Inr [\<lparr>url = \<lparr>scheme = scheme u, host = host u,
             pathname = ''/.well-known/oauth-authorization-server'',
             searchParams = [], hash = []\<rparr>, type = oauth\<rparr>,
           \<lparr>url = \<lparr>scheme = scheme u, host = host u,
             pathname = ''/.well-known/openid-configuration'',
             searchParams = [], hash = []\<rparr>, type = oidc\<rparr>]"
    unfolding buildDiscoveryUrls_def
    using 1 2 assms(1,2) by (simp add: bindE_def Let_def)
  then show ?thesis
    by (simp add: listing_def href_path)
qed

lemma buildDiscoveryUrls_path:
  assumes "URL_new E x = Inr u" and "wf_URL u" and "pathname u \<noteq> ''/''"
      and "URL_parse E (origin u) = Inr (origin_URL u)"
  shows "buildDiscoveryUrls E x =
     bindE (URL_resolve E (strip_trailing_slash (pathname u) @ ''/.well-known/openid-configuration'')
              (Str (origin u))) (\<lambda>u4.
       Inr [\<lparr>url = \<lparr>scheme = scheme u, host = host u,
              pathname = ''/.well-known/oauth-authorization-server''
                @ strip_trailing_slash (pathname u),
              searchParams = [], hash = []\<rparr>, type = oauth\<rparr>,
            \<lparr>url = \<lparr>scheme = scheme u, host = host u,
              pathname = ''/.well-known/oauth-authorization-server'',
              searchParams = [], hash = []\<rparr>, type = oauth\<rparr>,
            \<lparr>url = \<lparr>scheme = scheme u, host = host u,
              pathname = ''/.well-known/openid-configuration''
                @ strip_trailing_slash (pathname u),
              searchParams = [], hash = []\<rparr>, type = oidc\<rparr>,
            \<lparr>url = u4, type = oidc\<rparr>])"
proof -
  define P where "P = strip_trailing_slash (pathname u)"
  have wf: "startsWith (pathname u) ''/''" "list_all (\<lambda>c. \<not> is_qf c) (pathname u)"
    using assms(2) by (simp_all add: wf_URL_def)
  have nq: "list_all (\<lambda>c. \<not> is_qf c) P"
    unfolding P_def by (rule strip_facts(2) [OF wf(1) assms(3) wf(2), of "''/''"]) (simp add: startsWith_def)
  note b = assms(4)
  note w = wk_refs [OF nq]
  have 1: "URL_resolve E (''/.well-known/oauth-authorization-server'' @ P) (Str (origin u)) =
      Inr \<lparr>scheme = scheme u, host = host u,
           pathname = ''/.well-known/oauth-authorization-server'' @ P, searchParams = [], hash = []\<rparr>"
    using URL_resolve_path [OF b w(1) w(2) w(3)] by (simp add: origin_URL_def)
  have 2: "URL_resolve E ''/.well-known/oauth-authorization-server'' (Str (origin u)) =
      Inr \<lparr>scheme = scheme u, host = host u,
           pathname = ''/.well-known/oauth-authorization-server'', searchParams = [], hash = []\<rparr>"
    using URL_resolve_path [OF b, of "''/.well-known/oauth-authorization-server''"]
    by (simp add: startsWith_def is_qf_def origin_URL_def)
  have 3: "URL_resolve E (''/.well-known/openid-configuration'' @ P) (Str (origin u)) =
      Inr \<lparr>scheme = scheme u, host = host u,
           pathname = ''/.well-known/openid-configuration'' @ P, searchParams = [], hash = []\<rparr>"
    using URL_resolve_path [OF b w(4) w(5) w(6)] by (simp add: origin_URL_def)
  have strip: "(if endsWith (pathname u) ''/'' then slice_0_m1 (pathname u) else pathname u) = P"
    by (simp add: P_def strip_trailing_slash_def)
  show ?thesis
    unfolding buildDiscoveryUrls_def P_def [symmetric]
    using 1 2 3 assms(1,3) strip by (simp add: bindE_def Let_def)
qed


lemma well_known_distinct:
  assumes "P \<noteq> []"
  shows "distinct [(o' :: string) @ ''/.well-known/oauth-authorization-server'' @ P,
            o' @ ''/.well-known/oauth-authorization-server'',
            o' @ ''/.well-known/openid-configuration'' @ P]"
    and "distinct [(o' :: string) @ ''/.well-known/oauth-authorization-server'' @ P,
            o' @ ''/.well-known/oauth-authorization-server'',
            o' @ ''/.well-known/openid-configuration'' @ P,
            o' @ P @ ''/.well-known/openid-configuration'']
         \<longleftrightarrow> ''/.well-known/openid-configuration'' @ P \<noteq> P @ ''/.well-known/openid-configuration''"
proof -
  have a: "''/.well-known/oauth-authorization-server'' @ P \<noteq> P @ ''/.well-known/openid-configuration''"
  proof
    assume "''/.well-known/oauth-authorization-server'' @ P = P @ ''/.well-known/openid-configuration''"
    then have "length (''/.well-known/oauth-authorization-server'' @ P)
        = length (P @ ''/.well-known/openid-configuration'')" by (rule arg_cong)
    then show False by simp
  qed
  have b: "''/.well-known/oauth-authorization-server'' \<noteq> P @ ''/.well-known/openid-configuration''"
  proof
    assume "''/.well-known/oauth-authorization-server'' = P @ ''/.well-known/openid-configuration''"
    then have "rev ''/.well-known/oauth-authorization-server''
        = rev (P @ ''/.well-known/openid-configuration'')" by (rule arg_cong)
    then show False by simp
  qed
  show "distinct [o' @ ''/.well-known/oauth-authorization-server'' @ P,
            o' @ ''/.well-known/oauth-authorization-server'',
            o' @ ''/.well-known/openid-configuration'' @ P]"
    using assms by auto
  show "distinct [o' @ ''/.well-known/oauth-authorization-server'' @ P,
            o' @ ''/.well-known/oauth-authorization-server'',
            o' @ ''/.well-known/openid-configuration'' @ P,
            o' @ P @ ''/.well-known/openid-configuration'']
         \<longleftrightarrow> ''/.well-known/openid-configuration'' @ P \<noteq> P @ ''/.well-known/openid-configuration''"
    using assms a b by auto
qed

lemma buildDiscoveryUrls_no_origin:
  assumes "URL_new E x = Inr u" and "URL_parse E (origin u) = Inl e"
  shows "buildDiscoveryUrls E x = Inl e"
  unfolding buildDiscoveryUrls_def
  using assms by (simp add: bindE_def Let_def URL_resolve_no_base)

text \<open>
  C1 (amended). Let \<open>u\<close> be the authorization server URL and \<open>P\<close> its path with a trailing
  slash stripped. When the scheme of \<open>u\<close> is \<^verbatim>\<open>http\<close>, \<^verbatim>\<open>https\<close>, \<^verbatim>\<open>ws\<close>, \<^verbatim>\<open>wss\<close> or
  \<^verbatim>\<open>ftp\<close> (and the platform reads the origin of \<open>u\<close> as the root of its site):
  for the path \<^verbatim>\<open>/\<close> buildDiscoveryUrls returns exactly the two entries
  \<^verbatim>\<open>{origin}/.well-known/oauth-authorization-server\<close> (oauth) and
  \<^verbatim>\<open>{origin}/.well-known/openid-configuration\<close> (oidc); for a path other than \<^verbatim>\<open>/\<close> that
  does not begin with two slashes it returns exactly the four entries
  \<^verbatim>\<open>{origin}/.well-known/oauth-authorization-server{P}\<close> (oauth),
  \<^verbatim>\<open>{origin}/.well-known/oauth-authorization-server\<close> (oauth),
  \<^verbatim>\<open>{origin}/.well-known/openid-configuration{P}\<close> (oidc) and
  \<^verbatim>\<open>{origin}{P}/.well-known/openid-configuration\<close> (oidc), in this order; and for every
  path other than \<^verbatim>\<open>/\<close>, also one that begins with two slashes, a list that it returns
  has four entries, of which the first three are the three just named and the fourth is
  tagged oidc. In every list that it returns the first entry is an OAuth endpoint and
  the URLs of the first three entries are pairwise different; when the path does not
  begin with two slashes, all URLs of the list are pairwise different except that the
  third and the fourth coincide exactly when \<open>P\<close> commutes with
  \<^verbatim>\<open>/.well-known/openid-configuration\<close> (as when \<open>P\<close> is that very path). When the scheme
  of \<open>u\<close> is any other, its origin is \<^verbatim>\<open>null\<close> and buildDiscoveryUrls throws the
  \<^verbatim>\<open>TypeError\<close> that \<^verbatim>\<open>new URL\<close> throws for that base.
\<close>

theorem buildDiscoveryUrls_entries:
  fixes E :: "'a platform_scheme"
  assumes "URL_new E x = Inr u" and "wf_URL u"
  defines "P \<equiv> strip_trailing_slash (pathname u)"
  defines "e1 \<equiv> (origin u @ ''/.well-known/oauth-authorization-server'' @ P, oauth)"
  defines "e2 \<equiv> (origin u @ ''/.well-known/oauth-authorization-server'', oauth)"
  defines "e3 \<equiv> (origin u @ ''/.well-known/openid-configuration'' @ P, oidc)"
  defines "e4 \<equiv> (origin u @ P @ ''/.well-known/openid-configuration'', oidc)"
  shows "(scheme u \<in> set tuple_origin_schemes \<and> URL_parse E (origin u) = Inr (origin_URL u) \<longrightarrow>
            (pathname u = ''/'' \<longrightarrow>
               listing (buildDiscoveryUrls E x) =
                 Inr [(origin u @ ''/.well-known/oauth-authorization-server'', oauth),
                      (origin u @ ''/.well-known/openid-configuration'', oidc)])
          \<and> (pathname u \<noteq> ''/'' \<and> \<not> startsWith (pathname u) ''//'' \<longrightarrow>
               listing (buildDiscoveryUrls E x) = Inr [e1, e2, e3, e4])
          \<and> (\<forall>l. pathname u \<noteq> ''/'' \<and> listing (buildDiscoveryUrls E x) = Inr l \<longrightarrow>
               length l = 4 \<and> take 3 l = [e1, e2, e3] \<and> snd (l ! 3) = oidc)
          \<and> (\<forall>l. listing (buildDiscoveryUrls E x) = Inr l \<longrightarrow>
               l \<noteq> [] \<and> snd (hd l) = oauth \<and> distinct (map fst (take 3 l))
               \<and> (\<not> startsWith (pathname u) ''//'' \<longrightarrow>
                    (distinct (map fst l) \<longleftrightarrow>
                       pathname u = ''/''
                       \<or> ''/.well-known/openid-configuration'' @ P
                           \<noteq> P @ ''/.well-known/openid-configuration''))))
       \<and> (scheme u \<notin> set tuple_origin_schemes \<longrightarrow>
            (\<forall>e. URL_parse E ''null'' = Inl e \<longrightarrow> buildDiscoveryUrls E x = Inl e))"
proof (cases "scheme u \<in> set tuple_origin_schemes")
  case False
  then have "origin u = ''null''" by (simp add: origin_def)
  then show ?thesis
    using False buildDiscoveryUrls_no_origin [OF assms(1)] by simp
next
  case True
  then have o: "origin u = scheme u @ ''://'' @ host u" by (simp add: origin_def)
  have "(pathname u = ''/'' \<longrightarrow>
               listing (buildDiscoveryUrls E x) =
                 Inr [(origin u @ ''/.well-known/oauth-authorization-server'', oauth),
                      (origin u @ ''/.well-known/openid-configuration'', oidc)])
          \<and> (pathname u \<noteq> ''/'' \<and> \<not> startsWith (pathname u) ''//'' \<longrightarrow>
               listing (buildDiscoveryUrls E x) = Inr [e1, e2, e3, e4])
          \<and> (\<forall>l. pathname u \<noteq> ''/'' \<and> listing (buildDiscoveryUrls E x) = Inr l \<longrightarrow>
               length l = 4 \<and> take 3 l = [e1, e2, e3] \<and> snd (l ! 3) = oidc)
          \<and> (\<forall>l. listing (buildDiscoveryUrls E x) = Inr l \<longrightarrow>
               l \<noteq> [] \<and> snd (hd l) = oauth \<and> distinct (map fst (take 3 l))
               \<and> (\<not> startsWith (pathname u) ''//'' \<longrightarrow>
                    (distinct (map fst l) \<longleftrightarrow>
                       pathname u = ''/''
                       \<or> ''/.well-known/openid-configuration'' @ P
                           \<noteq> P @ ''/.well-known/openid-configuration'')))"
    if b: "URL_parse E (origin u) = Inr (origin_URL u)"
  proof (cases "pathname u = ''/''")
    case True
    note r = buildDiscoveryUrls_root [OF assms(1) True b]
    show ?thesis using True r o by (simp add: startsWith_def)
  next
    case False
    note p = buildDiscoveryUrls_path [OF assms(1,2) False b, folded P_def]
    have wf: "startsWith (pathname u) ''/''" "list_all (\<lambda>c. \<not> is_qf c) (pathname u)"
      using assms(2) by (simp_all add: wf_URL_def)
    have wk: "startsWith ''/.well-known/openid-configuration'' ''/''"
      by (simp add: startsWith_def)
    note sf = strip_facts [OF wf(1) False wf(2) wk, folded P_def]
    have ne: "P \<noteq> []" using sf(1) by (auto simp: startsWith_def)
    note d = well_known_distinct [OF ne, of "scheme u @ ''://'' @ host u"]
    show ?thesis
    proof (cases "startsWith (pathname u) ''//''")
      case False
      have s: "startsWith (P @ ''/.well-known/openid-configuration'') ''/''"
        using sf(1) by (cases P) (auto simp: startsWith_def)
      have n: "\<not> startsWith (P @ ''/.well-known/openid-configuration'') ''//''"
        using sf(3) False by simp
      have 4: "URL_resolve E (P @ ''/.well-known/openid-configuration'') (Str (origin u)) =
          Inr \<lparr>scheme = scheme u, host = host u,
               pathname = P @ ''/.well-known/openid-configuration'', searchParams = [], hash = []\<rparr>"
        using URL_resolve_path [OF b s n wk_refs(7) [OF sf(2)]] by (simp add: origin_URL_def)
      have l: "listing (buildDiscoveryUrls E x) = Inr [e1, e2, e3, e4]"
        unfolding p 4 by (simp add: bindE_def listing_def href_path e1_def e2_def e3_def e4_def o)
      show ?thesis
        unfolding l using \<open>pathname u \<noteq> ''/''\<close> False d
        by (simp add: e1_def e2_def e3_def e4_def o)
    next
      case True
      have l: "l = [e1, e2, e3, (href u4, oidc)]"
        if "listing (buildDiscoveryUrls E x) = Inr l"
          and "URL_resolve E (P @ ''/.well-known/openid-configuration'') (Str (origin u)) = Inr u4"
        for l u4
        using that unfolding p
        by (simp add: bindE_def listing_def href_path e1_def e2_def e3_def o)
      have ex: "\<exists>u4. URL_resolve E (P @ ''/.well-known/openid-configuration'') (Str (origin u)) = Inr u4"
        if "listing (buildDiscoveryUrls E x) = Inr l" for l
        using that unfolding p
        by (cases "URL_resolve E (P @ ''/.well-known/openid-configuration'') (Str (origin u))")
           (simp_all add: bindE_def listing_def)
      have "length l = 4 \<and> take 3 l = [e1, e2, e3] \<and> snd (l ! 3) = oidc
            \<and> l \<noteq> [] \<and> snd (hd l) = oauth \<and> distinct (map fst (take 3 l))"
        if "listing (buildDiscoveryUrls E x) = Inr l" for l
      proof -
        note r = that
        obtain u4 where "l = [e1, e2, e3, (href u4, oidc)]"
          using ex [OF r] l [OF r] by blast
        then show ?thesis using d(1) by (simp add: e1_def e2_def e3_def o)
      qed
      then show ?thesis using True \<open>pathname u \<noteq> ''/''\<close> by blast
    qed
  qed
  then show ?thesis using True by blast
qed


text \<open>
  The theorem at four inputs: a path with a trailing slash, the path \<^verbatim>\<open>/\<close>, a path that
  begins with two slashes, and a scheme without an origin.
\<close>

theorem buildDiscoveryUrls_entries_witness:
  "URL_new example_platform (Str ''https://example.com/tenant1/'')
     = Inr (plain_URL ''https'' ''example.com'' ''/tenant1/'')
   \<and> wf_URL (plain_URL ''https'' ''example.com'' ''/tenant1/'')
   \<and> URL_parse example_platform ''https://example.com''
       = Inr (origin_URL (plain_URL ''https'' ''example.com'' ''/tenant1/''))
   \<and> listing (buildDiscoveryUrls example_platform (Str ''https://example.com/tenant1/'')) =
       Inr [(''https://example.com/.well-known/oauth-authorization-server/tenant1'', oauth),
            (''https://example.com/.well-known/oauth-authorization-server'', oauth),
            (''https://example.com/.well-known/openid-configuration/tenant1'', oidc),
            (''https://example.com/tenant1/.well-known/openid-configuration'', oidc)]
   \<and> listing (buildDiscoveryUrls example_platform (Str ''https://auth.example'')) =
       Inr [(''https://auth.example/.well-known/oauth-authorization-server'', oauth),
            (''https://auth.example/.well-known/openid-configuration'', oidc)]
   \<and> (\<exists>l. listing (buildDiscoveryUrls example_platform (Str ''https://example.com//tenant''))
            = Inr l
          \<and> length l = 4
          \<and> take 3 l =
              [(''https://example.com/.well-known/oauth-authorization-server//tenant'', oauth),
               (''https://example.com/.well-known/oauth-authorization-server'', oauth),
               (''https://example.com/.well-known/openid-configuration//tenant'', oidc)]
          \<and> snd (l ! 3) = oidc \<and> snd (hd l) = oauth \<and> distinct (map fst (take 3 l)))
   \<and> URL_parse example_platform ''null'' = Inl invalid_url
   \<and> buildDiscoveryUrls example_platform (Str ''foo://host/x'') = Inl invalid_url"
proof -
  let ?E = example_platform
  let ?a = "plain_URL ''https'' ''example.com'' ''/tenant1/''"
  let ?b = "plain_URL ''https'' ''auth.example'' ''/''"
  let ?c = "plain_URL ''https'' ''example.com'' ''//tenant''"
  let ?d = "plain_URL ''foo'' ''host'' ''/x''"
  note wf = wf_URL_def plain_URL_def toLowerCase_def lower_char_def is_delim_def is_qf_def
    startsWith_def
  note ev = plain_URL_def origin_def tuple_origin_schemes_def strip_trailing_slash_def
    endsWith_def slice_0_m1_def startsWith_def
  have a0: "URL_new ?E (Str ''https://example.com/tenant1/'') = Inr ?a" by code_simp
  have a1: "wf_URL ?a" by (simp add: wf)
  have a2: "scheme ?a \<in> set tuple_origin_schemes" by (simp add: ev)
  have a3: "URL_parse ?E (origin ?a) = Inr (origin_URL ?a)" by code_simp
  have a4: "URL_parse ?E ''https://example.com'' = Inr (origin_URL ?a)" by code_simp
  have A: "listing (buildDiscoveryUrls ?E (Str ''https://example.com/tenant1/'')) =
       Inr [(''https://example.com/.well-known/oauth-authorization-server/tenant1'', oauth),
            (''https://example.com/.well-known/oauth-authorization-server'', oauth),
            (''https://example.com/.well-known/openid-configuration/tenant1'', oidc),
            (''https://example.com/tenant1/.well-known/openid-configuration'', oidc)]"
    using buildDiscoveryUrls_entries [OF a0 a1] a2 a3 by (simp add: ev)
  have b0: "URL_new ?E (Str ''https://auth.example'') = Inr ?b" by code_simp
  have b1: "wf_URL ?b" by (simp add: wf)
  have b2: "scheme ?b \<in> set tuple_origin_schemes" by (simp add: ev)
  have b3: "URL_parse ?E (origin ?b) = Inr (origin_URL ?b)" by code_simp
  have B: "listing (buildDiscoveryUrls ?E (Str ''https://auth.example'')) =
       Inr [(''https://auth.example/.well-known/oauth-authorization-server'', oauth),
            (''https://auth.example/.well-known/openid-configuration'', oidc)]"
    using buildDiscoveryUrls_entries [OF b0 b1] b2 b3 by (simp add: ev)
  have c0: "URL_new ?E (Str ''https://example.com//tenant'') = Inr ?c" by code_simp
  have c1: "wf_URL ?c" by (simp add: wf)
  have c2: "scheme ?c \<in> set tuple_origin_schemes" by (simp add: ev)
  have c3: "URL_parse ?E (origin ?c) = Inr (origin_URL ?c)" by code_simp
  have "case listing (buildDiscoveryUrls ?E (Str ''https://example.com//tenant'')) of
          Inl e \<Rightarrow> False | Inr l \<Rightarrow> True"
    by code_simp
  then obtain l where c4: "listing (buildDiscoveryUrls ?E (Str ''https://example.com//tenant'')) = Inr l"
    by (cases "listing (buildDiscoveryUrls ?E (Str ''https://example.com//tenant''))") auto
  have C: "length l = 4
          \<and> take 3 l =
              [(''https://example.com/.well-known/oauth-authorization-server//tenant'', oauth),
               (''https://example.com/.well-known/oauth-authorization-server'', oauth),
               (''https://example.com/.well-known/openid-configuration//tenant'', oidc)]
          \<and> snd (l ! 3) = oidc \<and> snd (hd l) = oauth \<and> distinct (map fst (take 3 l))"
    using buildDiscoveryUrls_entries [OF c0 c1] c2 c3 c4 by (simp add: ev)
  have d0: "URL_new ?E (Str ''foo://host/x'') = Inr ?d" by code_simp
  have d1: "wf_URL ?d" by (simp add: wf)
  have d2: "scheme ?d \<notin> set tuple_origin_schemes" by (simp add: ev)
  have d3: "URL_parse ?E ''null'' = Inl invalid_url" by code_simp
  have D: "buildDiscoveryUrls ?E (Str ''foo://host/x'') = Inl invalid_url"
    using buildDiscoveryUrls_entries [OF d0 d1] d2 d3 by simp
  show ?thesis using a0 a1 a4 A B c4 C d3 D by blast
qed

text \<open>
  The claim as first stated fails in three ways. For the authorization server
  \<^verbatim>\<open>https://example.com/.well-known/openid-configuration\<close> the third and the fourth
  entry are the same URL. For \<^verbatim>\<open>https://example.com//tenant\<close> the fourth reference,
  \<^verbatim>\<open>//tenant/.well-known/openid-configuration\<close>, is a network-path reference, and the
  entry names the host \<^verbatim>\<open>tenant\<close> instead of the origin of the input. For
  \<^verbatim>\<open>foo://host/x\<close> the origin is \<^verbatim>\<open>null\<close> and no list is returned.
\<close>

theorem buildDiscoveryUrls_counterexample:
  "listing (buildDiscoveryUrls example_platform
      (Str ''https://example.com/.well-known/openid-configuration'')) =
     Inr [(''https://example.com/.well-known/oauth-authorization-server/.well-known/openid-configuration'', oauth),
          (''https://example.com/.well-known/oauth-authorization-server'', oauth),
          (''https://example.com/.well-known/openid-configuration/.well-known/openid-configuration'', oidc),
          (''https://example.com/.well-known/openid-configuration/.well-known/openid-configuration'', oidc)]
   \<and> listing (buildDiscoveryUrls example_platform (Str ''https://example.com//tenant'')) =
     Inr [(''https://example.com/.well-known/oauth-authorization-server//tenant'', oauth),
          (''https://example.com/.well-known/oauth-authorization-server'', oauth),
          (''https://example.com/.well-known/openid-configuration//tenant'', oidc),
          (''https://tenant/.well-known/openid-configuration'', oidc)]
   \<and> origin (plain_URL ''foo'' ''host'' ''/x'') = ''null''
   \<and> buildDiscoveryUrls example_platform (Str ''foo://host/x'') = Inl (TypeError ''Invalid URL'')"
  by code_simp

subsection \<open>The WWW-Authenticate challenge\<close>

lemma split_on_hd: "split_on d s \<noteq> [] \<and> hd (split_on d s) = takeWhile (\<lambda>c. c \<noteq> d) s"
  by (induction s) (auto split: list.splits)

lemma split_on_second:
  "(case tl (split_on d s) of [] \<Rightarrow> None | x # _ \<Rightarrow> Some x) =
     (if d \<in> set s then Some (takeWhile (\<lambda>c. c \<noteq> d) (drop 1 (dropWhile (\<lambda>c. c \<noteq> d) s)))
      else None)"
proof (induction s)
  case Nil
  then show ?case by simp
next
  case (Cons c s)
  show ?case
  proof (cases "c = d")
    case True
    then show ?thesis using split_on_hd [of d s] by (cases "split_on d s") auto
  next
    case False
    then show ?thesis using Cons split_on_hd [of d s] by (cases "split_on d s") auto
  qed
qed

lemma regex_exec_Some_iff:
  "regex_exec h \<noteq> None \<longleftrightarrow>
     (\<exists>pre v post. h = pre @ resource_metadata_eq_quote @ v @ CHR 0x22 # post)"
proof (induction h)
  case Nil
  then show ?case by (simp add: resource_metadata_eq_quote_def)
next
  case (Cons c s)
  let ?lit = resource_metadata_eq_quote
  show ?case
  proof (cases "startsWith (c # s) ?lit \<and> CHR 0x22 \<in> set (drop (length ?lit) (c # s))")
    case True
    then have 1: "regex_exec (c # s) \<noteq> None" by (simp add: Let_def)
    from True have t: "take (length ?lit) (c # s) = ?lit" by (simp add: startsWith_def)
    from True obtain v post where vp: "drop (length ?lit) (c # s) = v @ CHR 0x22 # post"
      by (meson split_list)
    have "c # s = take (length ?lit) (c # s) @ drop (length ?lit) (c # s)" by simp
    then have "c # s = [] @ ?lit @ v @ CHR 0x22 # post" using t vp by simp
    then show ?thesis using 1 by blast
  next
    case False
    then have r: "regex_exec (c # s) = regex_exec s" by (auto simp: Let_def)
    show ?thesis
    proof
      assume "regex_exec (c # s) \<noteq> None"
      then obtain pre v post where "s = pre @ ?lit @ v @ CHR 0x22 # post"
        using r Cons by auto
      then have "c # s = (c # pre) @ ?lit @ v @ CHR 0x22 # post" by simp
      then show "\<exists>pre v post. c # s = pre @ ?lit @ v @ CHR 0x22 # post" by blast
    next
      assume "\<exists>pre v post. c # s = pre @ ?lit @ v @ CHR 0x22 # post"
      then obtain pre v post where e: "c # s = pre @ ?lit @ v @ CHR 0x22 # post" by blast
      show "regex_exec (c # s) \<noteq> None"
      proof (cases pre)
        case Nil
        then have "startsWith (c # s) ?lit" "CHR 0x22 \<in> set (drop (length ?lit) (c # s))"
          using e by (simp_all add: startsWith_def)
        then show ?thesis using False by simp
      next
        case (Cons p ps)
        then have "s = ps @ ?lit @ v @ CHR 0x22 # post" using e by simp
        then show ?thesis using r \<open>regex_exec s \<noteq> None \<longleftrightarrow> _\<close> by auto
      qed
    qed
  qed
qed

lemma regex_exec_SomeD:
  "regex_exec h = Some v \<Longrightarrow>
     CHR 0x22 \<notin> set v \<and> (\<exists>pre post. h = pre @ resource_metadata_eq_quote @ v @ CHR 0x22 # post)"
proof (induction h)
  case Nil
  then show ?case by simp
next
  case (Cons c s)
  let ?lit = resource_metadata_eq_quote
  let ?after = "drop (length ?lit) (c # s)"
  show ?case
  proof (cases "startsWith (c # s) ?lit \<and> CHR 0x22 \<in> set ?after")
    case True
    then have v: "v = takeWhile (\<lambda>x. x \<noteq> CHR 0x22) ?after"
      using Cons.prems by (simp add: Let_def)
    have nq: "CHR 0x22 \<notin> set v"
      unfolding v by (metis (mono_tags, lifting) set_takeWhileD)
    have "dropWhile (\<lambda>x. x \<noteq> CHR 0x22) ?after \<noteq> []"
      using True by (simp add: dropWhile_eq_Nil_conv)
    moreover have "hd (dropWhile (\<lambda>x. x \<noteq> CHR 0x22) ?after) = CHR 0x22"
      using calculation hd_dropWhile [of "\<lambda>x. x \<noteq> CHR 0x22" ?after] by simp
    ultimately obtain post where "dropWhile (\<lambda>x. x \<noteq> CHR 0x22) ?after = CHR 0x22 # post"
      by (cases "dropWhile (\<lambda>x. x \<noteq> CHR 0x22) ?after") auto
    then have "?after = v @ CHR 0x22 # post"
      unfolding v by (metis takeWhile_dropWhile_id)
    moreover have "take (length ?lit) (c # s) = ?lit"
      using True by (simp add: startsWith_def)
    moreover have "c # s = take (length ?lit) (c # s) @ ?after" by simp
    ultimately have "c # s = [] @ ?lit @ v @ CHR 0x22 # post" by simp
    then show ?thesis using nq by blast
  next
    case False
    then have "regex_exec s = Some v" using Cons.prems by (auto simp: Let_def)
    then obtain pre post where "CHR 0x22 \<notin> set v" "s = pre @ ?lit @ v @ CHR 0x22 # post"
      using Cons.IH by blast
    then have "c # s = (c # pre) @ ?lit @ v @ CHR 0x22 # post" by simp
    then show ?thesis using \<open>CHR 0x22 \<notin> set v\<close> by blast
  qed
qed

lemma pieces_of_split:
  "split_on CHR '' '' h = t # rest \<Longrightarrow>
     t = first_piece h \<and>
     truthy (case rest of [] \<Rightarrow> None | s # _ \<Rightarrow> Some s) = (second_piece h \<noteq> [])"
proof -
  assume a: "split_on CHR '' '' h = t # rest"
  have 1: "t = first_piece h"
    using split_on_hd [of "CHR '' ''" h] a by (simp add: first_piece_def)
  have "(case rest of [] \<Rightarrow> None | s # _ \<Rightarrow> Some s) =
     (if CHR '' '' \<in> set h then Some (second_piece h) else None)"
    using split_on_second [of "CHR '' ''" h] a by (simp add: second_piece_def)
  moreover have "second_piece h = []" if "CHR '' '' \<notin> set h"
  proof -
    have d: "dropWhile (\<lambda>c. c \<noteq> CHR '' '') h = []"
      using that by (auto simp: dropWhile_eq_Nil_conv)
    show ?thesis unfolding second_piece_def d by simp
  qed
  ultimately show ?thesis using 1 by (auto simp: truthy_def)
qed

lemma regex_exec_parameter_values:
  "match_at_parameter quoted start s \<Longrightarrow>
     regex_exec s = (case spec_parameter_values quoted start s of [] \<Rightarrow> None | v # _ \<Rightarrow> Some v)"
proof (induction s arbitrary: quoted start)
  case Nil
  then show ?case by simp
next
  case (Cons c s)
  let ?lit = resource_metadata_eq_quote
  show ?case
  proof (cases "startsWith (c # s) ?lit \<and> CHR 0x22 \<in> set (drop (length ?lit) (c # s))")
    case True
    then have "\<not> quoted \<and> start" using Cons.prems by (simp add: Let_def)
    then show ?thesis using True by (simp add: Let_def)
  next
    case False
    then have m: "match_at_parameter (if c = CHR 0x22 then \<not> quoted else quoted) (is_separator c) s"
      using Cons.prems by (auto simp: Let_def)
    have r: "regex_exec (c # s) = regex_exec s" using False by (auto simp: Let_def)
    have p: "spec_parameter_values quoted start (c # s) =
        spec_parameter_values (if c = CHR 0x22 then \<not> quoted else quoted) (is_separator c) s"
      using False by (auto simp: Let_def)
    show ?thesis unfolding r p by (rule Cons.IH [OF m])
  qed
qed

text \<open>
  C9 (amended). Take a response whose \<^verbatim>\<open>WWW-Authenticate\<close> header, if it has one,
  holds the text \<^verbatim>\<open>resource_metadata="..."\<close> first at the beginning of a parameter, or
  not at all. For it extractResourceMetadataUrl returns a parsed URL exactly when the
  header is present, the text before its first space is \<^verbatim>\<open>bearer\<close> in any letter case,
  the text between the first space and the next space (or the end) is not empty, and
  the value of the first \<^verbatim>\<open>resource_metadata="..."\<close> parameter parses as a URL; the
  result is that URL. For every response, the function returns a URL or \<^verbatim>\<open>undefined\<close>
  and never throws, and it returns \<^verbatim>\<open>undefined\<close> when the header is absent, when the
  text before the first space is not \<^verbatim>\<open>bearer\<close>, and when nothing or another space
  follows the first space.
\<close>

theorem extractResourceMetadataUrl_exactly_when:
  fixes E :: "'a platform_scheme"
  shows
  "(\<forall>h. Headers_get (headers res) ''WWW-Authenticate'' = Some h \<and> first_match_at_parameter h \<longrightarrow>
      (extractResourceMetadataUrl E res = Inr (Some u) \<longleftrightarrow>
         toLowerCase (first_piece h) = ''bearer'' \<and> second_piece h \<noteq> []
         \<and> (\<exists>v vs. spec_resource_metadata_parameters h = v # vs \<and> URL_parse E v = Inr u)))
   \<and> (Headers_get (headers res) ''WWW-Authenticate'' = None \<longrightarrow>
        extractResourceMetadataUrl E res = Inr None)
   \<and> (\<forall>h. Headers_get (headers res) ''WWW-Authenticate'' = Some h
          \<and> (toLowerCase (first_piece h) \<noteq> ''bearer'' \<or> second_piece h = []) \<longrightarrow>
        extractResourceMetadataUrl E res = Inr None)
   \<and> ((\<forall>u'. extractResourceMetadataUrl E res \<noteq> Inr (Some u'))
        \<longrightarrow> extractResourceMetadataUrl E res = Inr None)"
proof (cases "Headers_get (headers res) ''WWW-Authenticate''")
  case None
  then show ?thesis by (simp add: extractResourceMetadataUrl_def truthy_def)
next
  case (Some h)
  obtain t rest where sp: "split_on CHR '' '' h = t # rest"
    using split_on_hd [of "CHR '' ''" h] by (cases "split_on CHR '' '' h") auto
  note pc = pieces_of_split [OF sp]
  have e: "h = [] \<Longrightarrow> first_piece h = []" by (simp add: first_piece_def)
  have r: "regex_exec h = (case spec_resource_metadata_parameters h of [] \<Rightarrow> None | v # _ \<Rightarrow> Some v)"
    if "first_match_at_parameter h"
    using that regex_exec_parameter_values [of False False h]
    by (simp add: first_match_at_parameter_def spec_resource_metadata_parameters_def)
  have 1: "extractResourceMetadataUrl E res = Inr (Some u) \<longleftrightarrow>
         toLowerCase (first_piece h) = ''bearer'' \<and> second_piece h \<noteq> []
         \<and> (\<exists>v vs. spec_resource_metadata_parameters h = v # vs \<and> URL_parse E v = Inr u)"
    if "first_match_at_parameter h"
    using Some sp pc e r [OF that]
    by (auto simp: extractResourceMetadataUrl_def Let_def truthy_def
        split: option.splits sum.splits list.splits)
  have 2: "extractResourceMetadataUrl E res = Inr None"
    if "toLowerCase (first_piece h) \<noteq> ''bearer'' \<or> second_piece h = []"
    using Some sp pc e that
    by (auto simp: extractResourceMetadataUrl_def Let_def truthy_def
        split: option.splits sum.splits)
  have 3: "(\<forall>u'. extractResourceMetadataUrl E res \<noteq> Inr (Some u'))
        \<longrightarrow> extractResourceMetadataUrl E res = Inr None"
    using Some sp pc e
    by (auto simp: extractResourceMetadataUrl_def Let_def truthy_def
        split: option.splits sum.splits)
  show ?thesis
  proof (intro conjI allI impI)
    fix h'
    assume "Headers_get (headers res) ''WWW-Authenticate'' = Some h' \<and> first_match_at_parameter h'"
    then have "h' = h" "first_match_at_parameter h" using Some by simp_all
    then show "extractResourceMetadataUrl E res = Inr (Some u) \<longleftrightarrow>
         toLowerCase (first_piece h') = ''bearer'' \<and> second_piece h' \<noteq> []
         \<and> (\<exists>v vs. spec_resource_metadata_parameters h' = v # vs \<and> URL_parse E v = Inr u)"
      using 1 by blast
  next
    assume "Headers_get (headers res) ''WWW-Authenticate'' = None"
    then show "extractResourceMetadataUrl E res = Inr None" using Some by simp
  next
    fix h'
    assume "Headers_get (headers res) ''WWW-Authenticate'' = Some h'
          \<and> (toLowerCase (first_piece h') \<noteq> ''bearer'' \<or> second_piece h' = [])"
    then have "h' = h" "toLowerCase (first_piece h) \<noteq> ''bearer'' \<or> second_piece h = []"
      using Some by auto
    then show "extractResourceMetadataUrl E res = Inr None" using 2 by blast
  next
    assume "\<forall>u'. extractResourceMetadataUrl E res \<noteq> Inr (Some u')"
    then show "extractResourceMetadataUrl E res = Inr None" using 3 by blast
  qed
qed


text \<open>
  The theorem at the challenge
  \<^verbatim>\<open>Bearer realm="x", resource_metadata="https://srv/.well-known/oauth-protected-resource"\<close>
  and at \<^verbatim>\<open>Basic realm="x"\<close>.
\<close>

theorem extractResourceMetadataUrl_exactly_when_witness:
  "first_match_at_parameter
     (''Bearer realm='' @ [CHR 0x22] @ ''x'' @ [CHR 0x22] @ '', resource_metadata='' @ [CHR 0x22]
        @ ''https://srv/.well-known/oauth-protected-resource'' @ [CHR 0x22])
   \<and> spec_resource_metadata_parameters
     (''Bearer realm='' @ [CHR 0x22] @ ''x'' @ [CHR 0x22] @ '', resource_metadata='' @ [CHR 0x22]
        @ ''https://srv/.well-known/oauth-protected-resource'' @ [CHR 0x22])
     = [''https://srv/.well-known/oauth-protected-resource'']
   \<and> extractResourceMetadataUrl example_platform
     \<lparr>status = 401,
      headers = [(''www-authenticate'',
        ''Bearer realm='' @ [CHR 0x22] @ ''x'' @ [CHR 0x22] @ '', resource_metadata='' @ [CHR 0x22]
          @ ''https://srv/.well-known/oauth-protected-resource'' @ [CHR 0x22])],
      body = None\<rparr>
     = Inr (Some (plain_URL ''https'' ''srv'' ''/.well-known/oauth-protected-resource''))
   \<and> extractResourceMetadataUrl example_platform
     \<lparr>status = 401,
      headers = [(''www-authenticate'', ''Basic realm='' @ [CHR 0x22] @ ''x'' @ [CHR 0x22])],
      body = None\<rparr>
     = Inr None"
proof -
  let ?E = example_platform
  let ?h = "''Bearer realm='' @ [CHR 0x22] @ ''x'' @ [CHR 0x22] @ '', resource_metadata=''
          @ [CHR 0x22] @ ''https://srv/.well-known/oauth-protected-resource'' @ [CHR 0x22]"
  let ?res = "\<lparr>status = 401, headers = [(''www-authenticate'', ?h)], body = None\<rparr>"
  let ?u = "plain_URL ''https'' ''srv'' ''/.well-known/oauth-protected-resource''"
  let ?h2 = "''Basic realm='' @ [CHR 0x22] @ ''x'' @ [CHR 0x22]"
  let ?res2 = "\<lparr>status = 401, headers = [(''www-authenticate'', ?h2)], body = None\<rparr>"
  have g: "Headers_get (headers ?res) ''WWW-Authenticate'' = Some ?h" by code_simp
  have m: "first_match_at_parameter ?h" by code_simp
  have p: "spec_resource_metadata_parameters ?h = [''https://srv/.well-known/oauth-protected-resource'']"
    by code_simp
  have b: "toLowerCase (first_piece ?h) = ''bearer'' \<and> second_piece ?h \<noteq> []" by code_simp
  have v: "URL_parse ?E ''https://srv/.well-known/oauth-protected-resource'' = Inr ?u" by code_simp
  have 1: "extractResourceMetadataUrl ?E ?res = Inr (Some ?u)"
    using extractResourceMetadataUrl_exactly_when [of ?res ?E ?u] g m p b v by blast
  have g2: "Headers_get (headers ?res2) ''WWW-Authenticate'' = Some ?h2" by code_simp
  have b2: "toLowerCase (first_piece ?h2) \<noteq> ''bearer''" by code_simp
  have 2: "extractResourceMetadataUrl ?E ?res2 = Inr None"
    using extractResourceMetadataUrl_exactly_when [of ?res2 ?E] g2 b2 by blast
  show ?thesis using m p 1 2 by blast
qed

text \<open>
  The claim as first stated fails in two ways. In a challenge with two spaces after the
  scheme the header is present, its scheme is \<^verbatim>\<open>Bearer\<close>, and it carries a
  \<^verbatim>\<open>resource_metadata\<close> parameter whose value parses, yet the second piece of
  \<^verbatim>\<open>split(' ')\<close> is empty and the function returns \<^verbatim>\<open>undefined\<close>. And in the challenge
  \<^verbatim>\<open>Bearer resource_metadata="none", resource_metadata="https://srv/x"\<close> the value of
  the second parameter parses, yet the function reads the first only and returns
  \<^verbatim>\<open>undefined\<close>.
\<close>

theorem extractResourceMetadataUrl_counterexample:
  "Headers_get
     (headers \<lparr>status = 401,
        headers = [(''www-authenticate'',
          ''Bearer  resource_metadata='' @ [CHR 0x22]
            @ ''https://srv/.well-known/oauth-protected-resource'' @ [CHR 0x22])],
        body = None\<rparr>) ''WWW-Authenticate''
     = Some (''Bearer  resource_metadata='' @ [CHR 0x22]
            @ ''https://srv/.well-known/oauth-protected-resource'' @ [CHR 0x22])
   \<and> toLowerCase (first_piece (''Bearer  resource_metadata='' @ [CHR 0x22]
            @ ''https://srv/.well-known/oauth-protected-resource'' @ [CHR 0x22])) = ''bearer''
   \<and> spec_resource_metadata_parameters (''Bearer  resource_metadata='' @ [CHR 0x22]
            @ ''https://srv/.well-known/oauth-protected-resource'' @ [CHR 0x22])
       = [''https://srv/.well-known/oauth-protected-resource'']
   \<and> URL_parse example_platform ''https://srv/.well-known/oauth-protected-resource''
       = Inr (plain_URL ''https'' ''srv'' ''/.well-known/oauth-protected-resource'')
   \<and> extractResourceMetadataUrl example_platform
        \<lparr>status = 401,
         headers = [(''www-authenticate'',
           ''Bearer  resource_metadata='' @ [CHR 0x22]
             @ ''https://srv/.well-known/oauth-protected-resource'' @ [CHR 0x22])],
         body = None\<rparr>
       = Inr None
   \<and> toLowerCase (first_piece (''Bearer resource_metadata='' @ [CHR 0x22] @ ''none''
            @ [CHR 0x22] @ '', resource_metadata='' @ [CHR 0x22] @ ''https://srv/x''
            @ [CHR 0x22])) = ''bearer''
   \<and> spec_resource_metadata_parameters (''Bearer resource_metadata='' @ [CHR 0x22] @ ''none''
            @ [CHR 0x22] @ '', resource_metadata='' @ [CHR 0x22] @ ''https://srv/x''
            @ [CHR 0x22])
       = [''none'', ''https://srv/x'']
   \<and> URL_parse example_platform ''https://srv/x'' = Inr (plain_URL ''https'' ''srv'' ''/x'')
   \<and> extractResourceMetadataUrl example_platform
        \<lparr>status = 401,
         headers = [(''www-authenticate'',
           ''Bearer resource_metadata='' @ [CHR 0x22] @ ''none'' @ [CHR 0x22]
             @ '', resource_metadata='' @ [CHR 0x22] @ ''https://srv/x'' @ [CHR 0x22])],
         body = None\<rparr>
       = Inr None"
  by code_simp

subsection \<open>Protected resource metadata discovery\<close>

lemma fetchWithCorsRetry_None:
  "fetchWithCorsRetry E u None f w =
     ((case net E (length (requests w)) f (get_request u None) of
         Inr r \<Rightarrow> Inr (Some r)
       | Inl e \<Rightarrow> if is_TypeError e then Inr None else Inl e),
      logged (in_fetchWithCorsRetry, f, get_request u None) w)"
  by (simp add: try_catch_def await_def fetch_call_def return_def throw_def get_request_def
      logged_def split: sum.splits)

lemma fetchWithCorsRetry_Some:
  "fetchWithCorsRetry E u (Some h) f w =
     (case net E (length (requests w)) f (get_request u (Some h)) of
        Inr r \<Rightarrow> (Inr (Some r), logged (in_fetchWithCorsRetry, f, get_request u (Some h)) w)
      | Inl e \<Rightarrow>
          if is_TypeError e
          then fetchWithCorsRetry E u None f (logged (in_fetchWithCorsRetry, f, get_request u (Some h)) w)
          else (Inl e, logged (in_fetchWithCorsRetry, f, get_request u (Some h)) w))"
  by (simp add: try_catch_def await_def fetch_call_def return_def throw_def get_request_def
      logged_def split: sum.splits del: fetchWithCorsRetry.simps(1))

lemma fetchWithCorsRetry_requests:
  "\<exists>rest. requests (snd (fetchWithCorsRetry E u (Some h) f w)) =
      requests w @ (in_fetchWithCorsRetry, f, get_request u (Some h)) # rest
    \<and> (\<forall>c\<in>set rest. c = (in_fetchWithCorsRetry, f, get_request u None))"
  by (simp add: fetchWithCorsRetry_Some fetchWithCorsRetry_None logged_def split: sum.splits
       del: fetchWithCorsRetry.simps)

lemma strip_no_qf:
  "list_all (\<lambda>c. \<not> is_qf c) p \<Longrightarrow> list_all (\<lambda>c. \<not> is_qf c) (strip_trailing_slash p)"
  by (auto simp: strip_trailing_slash_def slice_0_m1_def list_all_iff dest: in_set_butlastD)

lemma resolve_path_aware:
  assumes "wf_URL issuer"
  shows "URL_resolve E (buildWellKnownPath oauth_protected_resource (pathname issuer) False)
           (Url issuer) = Inr ((path_aware_url issuer)\<lparr>searchParams := []\<rparr>)"
proof -
  have nq: "list_all (\<lambda>c. \<not> is_qf c) (strip_trailing_slash (pathname issuer))"
    using assms by (simp add: wf_URL_def strip_no_qf)
  have b: "buildWellKnownPath oauth_protected_resource (pathname issuer) False =
      ''/.well-known/oauth-protected-resource'' @ strip_trailing_slash (pathname issuer)"
    by (simp add: buildWellKnownPath_def prefix_text_def strip_trailing_slash_def Let_def)
  have t: "URL_tail (scheme issuer) (host issuer)
        (''/.well-known/oauth-protected-resource'' @ strip_trailing_slash (pathname issuer)) =
      \<lparr>scheme = scheme issuer, host = host issuer,
       pathname = ''/.well-known/oauth-protected-resource'' @ strip_trailing_slash (pathname issuer),
       searchParams = [], hash = []\<rparr>"
    using nq by (intro URL_tail_path) (simp_all add: is_qf_def)
  show ?thesis
    unfolding b URL_resolve_def URL_new_def using t
    by (simp add: startsWith_def path_aware_url_def)
qed

lemma resolve_root:
  "URL_resolve E (''/.well-known/'' @ prefix_text oauth_protected_resource) (Url issuer) =
     Inr (root_url issuer)"
proof -
  have t: "URL_tail (scheme issuer) (host issuer) ''/.well-known/oauth-protected-resource'' =
      \<lparr>scheme = scheme issuer, host = host issuer,
       pathname = ''/.well-known/oauth-protected-resource'', searchParams = [], hash = []\<rparr>"
    by (intro URL_tail_path) (simp_all add: is_qf_def)
  show ?thesis
    unfolding URL_resolve_def URL_new_def prefix_text_def using t
    by (simp add: startsWith_def root_url_def)
qed

lemma discoverMetadataWithFallback_protected_resource:
  assumes "URL_new E serverUrl' = Inr issuer" and "wf_URL issuer" and "\<not> truthy_su (metadataUrl opts)"
      and "metadataServerUrl opts = None"
  shows "discoverMetadataWithFallback E serverUrl' oauth_protected_resource f opts w =
     (let pv = (case protocolVersion opts of None \<Rightarrow> LATEST_PROTOCOL_VERSION E | Some v \<Rightarrow> v);
          first = tryMetadataDiscovery E (path_aware_url issuer) pv f w
      in case fst first of
           Inl e \<Rightarrow> first
         | Inr response \<Rightarrow>
             if shouldAttemptFallback response (pathname issuer)
             then tryMetadataDiscovery E (root_url issuer) pv f (snd first)
             else first)"
proof -
  have u: "(path_aware_url issuer)\<lparr>searchParams := [], searchParams := searchParams issuer\<rparr>
      = path_aware_url issuer"
    by (simp add: path_aware_url_def)
  show ?thesis
    unfolding discoverMetadataWithFallback_def
    using assms resolve_path_aware [OF assms(2), of E] resolve_root [of E issuer] u
    by (simp add: await_def lift_def bindE_def Let_def return_def
          split: prod.splits sum.splits)
qed

lemma tryMetadataDiscovery_requests:
  "\<exists>rest. requests (snd (tryMetadataDiscovery E u pv f w)) =
      requests w @ (in_fetchWithCorsRetry, f,
        get_request u (Some [(''MCP-Protocol-Version'', pv)])) # rest"
  unfolding tryMetadataDiscovery_def
  using fetchWithCorsRetry_requests [of E u "[(''MCP-Protocol-Version'', pv)]" f w] by blast

lemma discoverOAuthProtectedResourceMetadata_eq:
  assumes "URL_new E serverUrl' = Inr issuer" and "wf_URL issuer" and "no_override opts"
  shows "discoverOAuthProtectedResourceMetadata E serverUrl' opts fetchFn' w =
     (let first = tryMetadataDiscovery E (path_aware_url issuer) (version_of E opts)
                    (or_fetch fetchFn') w;
          second = tryMetadataDiscovery E (root_url issuer) (version_of E opts)
                    (or_fetch fetchFn') (snd first)
      in case fst first of
           Inl e \<Rightarrow> (Inl e, snd first)
         | Inr response \<Rightarrow>
             if shouldAttemptFallback response (pathname issuer)
             then (case fst second of
                     Inl e \<Rightarrow> (Inl e, snd second)
                   | Inr response2 \<Rightarrow> (verdict E response2, snd second))
             else (verdict E response, snd first))"
proof -
  let ?opts = "\<lparr>protocolVersion = (case opts of None \<Rightarrow> None | Some x \<Rightarrow> r_protocolVersion x),
               metadataUrl = (case opts of None \<Rightarrow> None | Some x \<Rightarrow> resourceMetadataUrl x),
               metadataServerUrl = None\<rparr>"
  have a: "\<not> truthy_su (metadataUrl ?opts)" using assms(3) by (simp add: no_override_def)
  have b: "metadataServerUrl ?opts = None" by simp
  note d = discoverMetadataWithFallback_protected_resource [OF assms(1,2) a b]
  have v: "(\<lambda>response.
       if response = None \<or> status (the response) = 404
       then throw (Error NoProtectedResourceMetadata)
       else if \<not> ok (the response)
         then throw (Error (HttpLoadingProtectedResource (status (the response))))
         else await (lift (Response_json (the response)))
                (\<lambda>j. lift (OAuthProtectedResourceMetadataSchema E j)))
       = (\<lambda>response w'. (verdict E response, w' :: 'a world))"
    by (rule ext)+
       (auto simp: verdict_def throw_def await_def lift_def bindE_def
          split: option.splits sum.splits)
  show ?thesis
    unfolding discoverOAuthProtectedResourceMetadata_def v
    by (simp add: await_def d Let_def version_of_def split: sum.splits prod.splits)
qed

text \<open>
  C4 (amended). For every server URL, when no \<^verbatim>\<open>resourceMetadataUrl\<close> is supplied,
  protected-resource discovery first requests
  \<^verbatim>\<open>/.well-known/oauth-protected-resource{path}\<close> (the path without a trailing slash,
  and with the query of the server URL). An exception of that attempt other than a
  \<^verbatim>\<open>TypeError\<close> ends the discovery. When the attempt is absent (no response, or HTTP 404
  with a path other than \<^verbatim>\<open>/\<close>) it requests \<^verbatim>\<open>/.well-known/oauth-protected-resource\<close> at
  the origin, and otherwise it makes no second attempt. The outcome is decided by the
  last response: the error that the server does not implement protected resource
  metadata when it is a 404 or when there is no response (so both when the two
  attempts yield 404 and when the two attempts yield no response), the error that
  carries the HTTP status on any other response outside 2xx, and the parsed body on 2xx.
\<close>

theorem discoverOAuthProtectedResourceMetadata_fallback:
  fixes w :: "'p world" and E :: env and serverUrl' :: StringOrURL and issuer :: URL
    and opts :: "resource_opts option" and fetchFn' :: "FetchLike option"
  assumes "URL_new E serverUrl' = Inr issuer" and "wf_URL issuer" and "no_override opts"
  defines "f \<equiv> or_fetch fetchFn'"
  defines "pv \<equiv> version_of E opts"
  defines "first \<equiv> tryMetadataDiscovery E (path_aware_url issuer) pv f w"
  defines "second \<equiv> tryMetadataDiscovery E (root_url issuer) pv f (snd first)"
  defines "result \<equiv> discoverOAuthProtectedResourceMetadata E serverUrl' opts fetchFn' w"
  shows "(\<exists>rest. requests (snd result) =
            requests w @ (in_fetchWithCorsRetry, f,
              get_request (path_aware_url issuer) (Some [(''MCP-Protocol-Version'', pv)])) # rest)
    \<and> (\<forall>e. fst first = Inl e \<longrightarrow> result = (Inl e, snd first))
    \<and> (\<forall>response. fst first = Inr response
          \<and> \<not> (response = None \<or> (status (the response) = 404 \<and> pathname issuer \<noteq> ''/''))
          \<longrightarrow> result = (verdict E response, snd first))
    \<and> (\<forall>response. fst first = Inr response
          \<and> (response = None \<or> (status (the response) = 404 \<and> pathname issuer \<noteq> ''/''))
          \<longrightarrow> result = (case fst second of Inl e \<Rightarrow> Inl e | Inr response2 \<Rightarrow> verdict E response2,
                        snd second)
              \<and> (\<exists>pre rest. requests (snd result) =
                    pre @ (in_fetchWithCorsRetry, f,
                      get_request (root_url issuer) (Some [(''MCP-Protocol-Version'', pv)])) # rest))
    \<and> (\<forall>r1 r2. fst first = Inr (Some r1) \<and> status r1 = 404 \<and> pathname issuer \<noteq> ''/''
          \<and> fst second = Inr (Some r2) \<and> status r2 = 404
          \<longrightarrow> result = (Inl (Error NoProtectedResourceMetadata), snd second))
    \<and> (fst first = Inr None \<and> fst second = Inr None
          \<longrightarrow> result = (Inl (Error NoProtectedResourceMetadata), snd second))
    \<and> (\<forall>r. r \<noteq> None \<and> \<not> ok (the r) \<and> status (the r) \<noteq> 404
          \<longrightarrow> verdict E r = Inl (Error (HttpLoadingProtectedResource (status (the r)))))"
proof -
  have eq: "result =
     (case fst first of
           Inl e \<Rightarrow> (Inl e, snd first)
         | Inr response \<Rightarrow>
             if shouldAttemptFallback response (pathname issuer)
             then (case fst second of
                     Inl e \<Rightarrow> (Inl e, snd second)
                   | Inr response2 \<Rightarrow> (verdict E response2, snd second))
             else (verdict E response, snd first))"
    unfolding result_def second_def first_def f_def pv_def
    using discoverOAuthProtectedResourceMetadata_eq [OF assms(1,2,3), of fetchFn' w]
    by (simp add: Let_def)
  have r1: "\<exists>rest. requests (snd first) =
      requests w @ (in_fetchWithCorsRetry, f,
        get_request (path_aware_url issuer) (Some [(''MCP-Protocol-Version'', pv)])) # rest"
    unfolding first_def by (rule tryMetadataDiscovery_requests)
  have r2: "\<exists>rest. requests (snd second) =
      requests (snd first) @ (in_fetchWithCorsRetry, f,
        get_request (root_url issuer) (Some [(''MCP-Protocol-Version'', pv)])) # rest"
    unfolding second_def by (rule tryMetadataDiscovery_requests)
  have s: "snd result = snd first \<or> snd result = snd second"
    using eq by (auto simp: Let_def split: sum.splits if_splits)
  have c1: "\<exists>rest. requests (snd result) =
      requests w @ (in_fetchWithCorsRetry, f,
        get_request (path_aware_url issuer) (Some [(''MCP-Protocol-Version'', pv)])) # rest"
    using s r1 r2 by auto
  have c2: "\<forall>e. fst first = Inl e \<longrightarrow> result = (Inl e, snd first)"
    using eq by (simp add: Let_def)
  have c3: "\<forall>response. fst first = Inr response
          \<and> \<not> (response = None \<or> (status (the response) = 404 \<and> pathname issuer \<noteq> ''/''))
          \<longrightarrow> result = (verdict E response, snd first)"
    using eq by (simp add: Let_def shouldAttemptFallback_def)
  have c4: "\<forall>response. fst first = Inr response
          \<and> (response = None \<or> (status (the response) = 404 \<and> pathname issuer \<noteq> ''/''))
          \<longrightarrow> result = (case fst second of Inl e \<Rightarrow> Inl e | Inr response2 \<Rightarrow> verdict E response2,
                        snd second)
              \<and> (\<exists>pre rest. requests (snd result) =
                    pre @ (in_fetchWithCorsRetry, f,
                      get_request (root_url issuer) (Some [(''MCP-Protocol-Version'', pv)])) # rest)"
    using eq r2 by (auto simp: Let_def shouldAttemptFallback_def split: sum.splits)
  have c5: "\<forall>r1 r2. fst first = Inr (Some r1) \<and> status r1 = 404 \<and> pathname issuer \<noteq> ''/''
          \<and> fst second = Inr (Some r2) \<and> status r2 = 404
          \<longrightarrow> result = (Inl (Error NoProtectedResourceMetadata), snd second)"
    using eq by (simp add: Let_def shouldAttemptFallback_def verdict_def)
  have c6: "fst first = Inr None \<and> fst second = Inr None
          \<longrightarrow> result = (Inl (Error NoProtectedResourceMetadata), snd second)"
    using eq by (simp add: Let_def shouldAttemptFallback_def verdict_def)
  have c7: "\<forall>r. r \<noteq> None \<and> \<not> ok (the r) \<and> status (the r) \<noteq> 404
          \<longrightarrow> verdict E r = Inl (Error (HttpLoadingProtectedResource (status (the r))))"
    by (auto simp: verdict_def)
  show ?thesis using c1 c2 c3 c4 c5 c6 c7 by blast
qed

theorem discoverOAuthProtectedResourceMetadata_fallback_witness:
  "URL_new (example_env always_404) (Str ''https://srv.example/mcp'') = Inr srv_mcp
   \<and> wf_URL srv_mcp
   \<and> no_override None
   \<and> fst (discoverOAuthProtectedResourceMetadata (example_env always_404)
            (Str ''https://srv.example/mcp'') None None (fresh_world ()))
       = Inl (Error NoProtectedResourceMetadata)"
proof -
  let ?E = "example_env always_404"
  let ?w = "fresh_world ()"
  let ?r = "\<lparr>status = 404, headers = [], body = None\<rparr>"
  let ?first = "tryMetadataDiscovery ?E (path_aware_url srv_mcp) (version_of ?E None)
      (or_fetch None) ?w"
  let ?second = "tryMetadataDiscovery ?E (root_url srv_mcp) (version_of ?E None)
      (or_fetch None) (snd ?first)"
  have h1: "URL_new (example_env always_404) (Str ''https://srv.example/mcp'') = Inr srv_mcp" by code_simp
  have h2: "wf_URL srv_mcp" by code_simp
  have h3: "no_override None" by code_simp
  have a: "fst ?first = Inr (Some ?r)" by code_simp
  have b: "fst ?second = Inr (Some ?r)" by code_simp
  have c: "status ?r = 404 \<and> pathname srv_mcp \<noteq> ''/''" by code_simp
  have "discoverOAuthProtectedResourceMetadata ?E (Str ''https://srv.example/mcp'') None None ?w
      = (Inl (Error NoProtectedResourceMetadata), snd ?second)"
    using discoverOAuthProtectedResourceMetadata_fallback [OF h1 h2 h3, of None ?w] a b c
    by blast
  then show ?thesis using h1 h2 h3 by simp
qed

text \<open>
  The claim as first stated fails where both attempts end without a response (every
  request, with and without headers, throws a \<^verbatim>\<open>TypeError\<close>): the error thrown is the
  one that says the server does not implement protected resource metadata, the same as
  after two 404 responses, and not an error about the transport.
\<close>

theorem discoverOAuthProtectedResourceMetadata_counterexample:
  "fst (discoverOAuthProtectedResourceMetadata (example_env always_failing)
          (Str ''https://srv.example/mcp'') None None (fresh_world ()))
     = Inl (Error NoProtectedResourceMetadata)
   \<and> shown (requests (snd (discoverOAuthProtectedResourceMetadata (example_env always_failing)
          (Str ''https://srv.example/mcp'') None None (fresh_world ()))))
     = [(in_fetchWithCorsRetry, global_fetch,
          ''https://srv.example/.well-known/oauth-protected-resource/mcp'', True),
        (in_fetchWithCorsRetry, global_fetch,
          ''https://srv.example/.well-known/oauth-protected-resource/mcp'', False),
        (in_fetchWithCorsRetry, global_fetch,
          ''https://srv.example/.well-known/oauth-protected-resource'', True),
        (in_fetchWithCorsRetry, global_fetch,
          ''https://srv.example/.well-known/oauth-protected-resource'', False)]
   \<and> fst (discoverOAuthProtectedResourceMetadata (example_env always_404)
          (Str ''https://srv.example/mcp'') None None (fresh_world ()))
     = Inl (Error NoProtectedResourceMetadata)"
  by code_simp

subsection \<open>Authorization server metadata discovery\<close>







subsection \<open>Token refresh\<close>

lemma await_Inr:
  "await m f w = (Inr y, w') \<Longrightarrow> \<exists>x w1. m w = (Inr x, w1) \<and> f x w1 = (Inr y, w')"
  by (auto simp: await_def split: prod.splits sum.splits)

lemma bindE_Inr: "bindE m f = Inr y \<Longrightarrow> \<exists>x. m = Inr x \<and> f x = Inr y"
  by (auto simp: bindE_def split: sum.splits)

lemma show_nat_last: "show_nat n \<noteq> [] \<and> last (show_nat n) = char_of (48 + n mod 10)"
  by (subst (1 2) show_nat.simps) simp

lemma digit_not_n: "char_of (48 + n mod 10 :: nat) \<noteq> CHR ''n''"
proof
  assume a: "char_of (48 + n mod 10) = CHR ''n''"
  have "of_char (char_of (48 + n mod 10) :: char) = (48 + n mod 10) mod 256"
    by (rule of_char_of)
  moreover have "(of_char CHR ''n'' :: nat) = 110" by simp
  ultimately have "(48 + n mod 10) mod 256 = (110 :: nat)" unfolding a by simp
  moreover have "48 + n mod 10 < 58" by simp
  ultimately show False by simp
qed

lemma show_nat_not_refresh_token: "show_nat n \<noteq> ''refresh_token''"
proof
  assume "show_nat n = ''refresh_token''"
  then have "last (show_nat n) = CHR ''n''" by simp
  then show False using show_nat_last [of n] digit_not_n [of n] by simp
qed

lemma map_of_indexed:
  "map_of (map (\<lambda>i. (show_nat i, g i)) is) ''refresh_token'' = None"
proof (induction "is")
  case Nil
  then show ?case by simp
next
  case (Cons i "is")
  have "''refresh_token'' \<noteq> show_nat i"
    using show_nat_not_refresh_token [of i] by (rule not_sym)
  then show ?case using Cons by simp
qed

lemma member_with_refresh_token:
  "json_member (with_refresh_token R j) ''refresh_token'' =
     (case json_member j ''refresh_token'' of None \<Rightarrow> Some (JString R) | Some v \<Rightarrow> Some v)"
  by (cases j)
     (auto simp: json_member_def with_refresh_token_def own_properties_def map_add_def
        map_of_indexed split: option.splits)

lemma OAuthTokensSchema_refresh_token:
  assumes "OAuthTokensSchema j = Inr t"
  shows "z_string_optional (json_member j ''refresh_token'') = Inr (refresh_token t)"
proof -
  from assms obtain kvs where j: "j = JObject kvs"
    by (cases j) (auto simp: OAuthTokensSchema_def)
  from assms show ?thesis
    unfolding OAuthTokensSchema_def j
    by (auto dest!: bindE_Inr)
qed

lemma await_lift_Inr:
  "await (lift p) f w = (Inr y, w') \<Longrightarrow> \<exists>x. p = Inr x \<and> f x w = (Inr y, w')"
  by (auto simp: await_def lift_def split: sum.splits)

lemma refresh_response:
  assumes "await (fetch_call E site f req) (\<lambda>response.
              if \<not> ok response then throw (parseErrorResponse response)
              else await (lift (Response_json response)) (\<lambda>j.
                     lift (OAuthTokensSchema (with_refresh_token R1 j)))) w = (Inr t, w')"
  shows "\<exists>response j.
           w' = logged (site, f, req) w
         \<and> net E (length (requests w)) f req = Inr response
         \<and> ok response \<and> body response = Some j
         \<and> ((json_member j ''refresh_token'' = None \<and> refresh_token t = Some R1)
            \<or> (\<exists>s. json_member j ''refresh_token'' = Some (JString s)
                   \<and> refresh_token t = Some s))"
proof -
  from assms obtain response w2 where
      f: "fetch_call E site f req w = (Inr response, w2)"
      and 2: "(if \<not> ok response then throw (parseErrorResponse response)
              else await (lift (Response_json response)) (\<lambda>j.
                     lift (OAuthTokensSchema (with_refresh_token R1 j)))) w2 = (Inr t, w')"
    by (blast dest: await_Inr)
  from f have n: "net E (length (requests w)) f req = Inr response"
      and w2: "w2 = logged (site, f, req) w"
    by (auto simp: fetch_call_def logged_def)
  from 2 have ok: "ok response" by (auto simp: throw_def split: if_splits)
  with 2 have "await (lift (Response_json response)) (\<lambda>j.
                     lift (OAuthTokensSchema (with_refresh_token R1 j))) w2 = (Inr t, w')"
    by simp
  from await_lift_Inr [OF this] obtain j where j: "Response_json response = Inr j"
      and "lift (OAuthTokensSchema (with_refresh_token R1 j)) w2 = (Inr t, w')"
    by blast
  then have p: "OAuthTokensSchema (with_refresh_token R1 j) = Inr t" and ww: "w' = w2"
    by (simp_all add: lift_def)
  from j have b: "body response = Some j"
    by (auto simp: Response_json_def split: option.splits)
  have "z_string_optional (json_member (with_refresh_token R1 j) ''refresh_token'')
      = Inr (refresh_token t)"
    by (rule OAuthTokensSchema_refresh_token [OF p])
  then have "(json_member j ''refresh_token'' = None \<and> refresh_token t = Some R1)
            \<or> (\<exists>s. json_member j ''refresh_token'' = Some (JString s)
                   \<and> refresh_token t = Some s)"
    unfolding member_with_refresh_token
    by (auto simp: z_string_optional_def split: option.splits json.splits)
  then show ?thesis using n w2 ww ok b by blast
qed

text \<open>
  C3. Every successful call of refreshAuthorization with the refresh token \<open>R1\<close> has
  issued one request, the answer to it is a 2xx response with a JSON body, and the
  \<^verbatim>\<open>refresh_token\<close> of the returned tokens is the \<^verbatim>\<open>refresh_token\<close> of that body when
  the body has one, and \<open>R1\<close> when the body omits it.
\<close>

theorem refreshAuthorization_refresh_token:
  assumes "refreshAuthorization E authorizationServerUrl metadata clientInformation' R1
             resource' addClientAuthentication' fetchFn' w = (Inr t, w')"
  shows "\<exists>req response j.
           w' = logged (in_refreshAuthorization, or_fetch fetchFn', req) w
         \<and> net E (length (requests w)) (or_fetch fetchFn') req = Inr response
         \<and> ok response \<and> body response = Some j
         \<and> ((json_member j ''refresh_token'' = None \<and> refresh_token t = Some R1)
            \<or> (\<exists>s. json_member j ''refresh_token'' = Some (JString s)
                   \<and> refresh_token t = Some s))"
proof -
  from assms obtain tokenUrl hdrs params where
    "await (fetch_call E in_refreshAuthorization (or_fetch fetchFn')
               (post_request tokenUrl hdrs (FormBody params))) (\<lambda>response.
              if \<not> ok response then throw (parseErrorResponse response)
              else await (lift (Response_json response)) (\<lambda>j.
                     lift (OAuthTokensSchema (with_refresh_token R1 j)))) w = (Inr t, w')"
  proof -
    assume r: "\<And>tokenUrl hdrs params.
      await (fetch_call E in_refreshAuthorization (or_fetch fetchFn')
               (post_request tokenUrl hdrs (FormBody params))) (\<lambda>response.
              if \<not> ok response then throw (parseErrorResponse response)
              else await (lift (Response_json response)) (\<lambda>j.
                     lift (OAuthTokensSchema (with_refresh_token R1 j)))) w = (Inr t, w')
      \<Longrightarrow> thesis"
    from await_lift_Inr [OF assms [unfolded refreshAuthorization_def Let_def]]
    obtain x where x: "(case x of (tokenUrl, hdrs, params) \<Rightarrow>
      await (fetch_call E in_refreshAuthorization (or_fetch fetchFn')
               (post_request tokenUrl hdrs (FormBody params))) (\<lambda>response.
              if \<not> ok response then throw (parseErrorResponse response)
              else await (lift (Response_json response)) (\<lambda>j.
                     lift (OAuthTokensSchema (with_refresh_token R1 j))))) w = (Inr t, w')"
      by blast
    obtain a b c where "x = (a, b, c)" by (cases x)
    with x show thesis using r by simp
  qed
  from refresh_response [OF this] show ?thesis by blast
qed

theorem refreshAuthorization_refresh_token_witness:
  "refreshAuthorization (example_env refresh_without_rotation) (Str ''https://srv.example/mcp'')
      None \<lparr>client_id = ''abc'', client_secret = None\<rparr> ''R1'' None None None (fresh_world ())
     = (Inr \<lparr>access_token = ''A2'', token_type = ''Bearer'', expires_in = None,
             granted_scope = None, refresh_token = Some ''R1''\<rparr>,
        logged (in_refreshAuthorization, global_fetch,
          post_request
            \<lparr>scheme = ''https'', host = ''srv.example'', pathname = ''/token'',
             searchParams = [], hash = []\<rparr>
            [(''content-type'', ''application/x-www-form-urlencoded'')]
            (FormBody [(''grant_type'', ''refresh_token''), (''refresh_token'', ''R1''),
                       (''client_id'', ''abc'')]))
          (fresh_world ()))
   \<and> (\<exists>req response j.
         net (example_env refresh_without_rotation) 0 global_fetch req = Inr response
         \<and> ok response \<and> body response = Some j
         \<and> json_member j ''refresh_token'' = None)"
proof -
  let ?t = "\<lparr>access_token = ''A2'', token_type = ''Bearer'', expires_in = None,
             granted_scope = None, refresh_token = Some ''R1''\<rparr>"
  have run: "refreshAuthorization (example_env refresh_without_rotation)
      (Str ''https://srv.example/mcp'')
      None \<lparr>client_id = ''abc'', client_secret = None\<rparr> ''R1'' None None None (fresh_world ())
     = (Inr ?t,
        logged (in_refreshAuthorization, global_fetch,
          post_request
            \<lparr>scheme = ''https'', host = ''srv.example'', pathname = ''/token'',
             searchParams = [], hash = []\<rparr>
            [(''content-type'', ''application/x-www-form-urlencoded'')]
            (FormBody [(''grant_type'', ''refresh_token''), (''refresh_token'', ''R1''),
                       (''client_id'', ''abc'')]))
          (fresh_world ()))"
    by code_simp
  from refreshAuthorization_refresh_token [OF run]
  have "\<exists>req response j.
         net (example_env refresh_without_rotation) 0 global_fetch req = Inr response
         \<and> ok response \<and> body response = Some j
         \<and> json_member j ''refresh_token'' = None"
    by (auto simp: fresh_world_def or_fetch_def example_env_def refresh_without_rotation_def
          json_member_def)
  with run show ?thesis by blast
qed

subsection \<open>Starting an authorization\<close>

lemma in_params_set:
  "(a, b) \<in> set (params_set k v ps) \<longleftrightarrow> (a = k \<and> b = v) \<or> (a \<noteq> k \<and> (a, b) \<in> set ps)"
  by (induction k v ps rule: params_set.induct) (auto split: if_splits)

lemma prompt_in_params_set:
  "k \<noteq> ''prompt'' \<Longrightarrow>
     (''prompt'', b) \<in> set (params_set k v ps) \<longleftrightarrow> (''prompt'', b) \<in> set ps"
  by (auto simp: in_params_set)

lemma startAuthorization_Inr:
  assumes "startAuthorization E s metadata ci r sc st res w = (Inr (u, v), w')"
  shows "\<exists>a q. authorization_base E s metadata = Inr a
           \<and> u = a\<lparr>searchParams := q\<rparr>
           \<and> ((''prompt'', ''consent'') \<in> set q \<longleftrightarrow>
                 (case sc of None \<Rightarrow> False | Some x \<Rightarrow> includes_str x ''offline_access'')
                 \<or> (''prompt'', ''consent'') \<in> set (searchParams a))"
proof -
  from await_lift_Inr [OF assms [unfolded startAuthorization_def Let_def]]
  obtain a where base: "(case metadata of
           Some m \<Rightarrow>
             bindE (URL_parse E (authorization_endpoint m)) (\<lambda>authorizationUrl.
               if ''code'' \<notin> set (response_types_supported m) then
                 Inl (Error (IncompatibleResponseType ''code''))
               else if code_challenge_methods_supported m = None
                       \<or> ''S256'' \<notin> set (the (code_challenge_methods_supported m))
               then Inl (Error (IncompatibleChallengeMethod ''S256''))
               else Inr authorizationUrl)
         | None \<Rightarrow> URL_resolve E ''/authorize'' s) = Inr a"
    and run: "await (pkceChallenge E) (\<lambda>challenge.
        return (a\<lparr>searchParams :=
            (if res \<noteq> None then params_set ''resource'' (href (the res)) else (\<lambda>q. q))
            ((if (case sc of None \<Rightarrow> False | Some x \<Rightarrow> includes_str x ''offline_access'')
              then params_append ''prompt'' ''consent'' else (\<lambda>q. q))
            ((if truthy sc then params_set ''scope'' (the sc) else (\<lambda>q. q))
            ((if truthy st then params_set ''state'' (the st) else (\<lambda>q. q))
            (params_set ''redirect_uri'' (String_of r)
            (params_set ''code_challenge_method'' ''S256''
            (params_set ''code_challenge'' (snd challenge)
            (params_set ''client_id'' (client_id ci)
            (params_set ''response_type'' ''code'' (searchParams a)))))))))\<rparr>,
          fst challenge)) w = (Inr (u, v), w')"
    by (auto simp: if_distrib [of "\<lambda>f. f _"] cong: if_cong)
  have b: "authorization_base E s metadata = Inr a"
    using base by (auto simp: authorization_base_def bindE_def split: option.splits sum.splits if_splits)
  from run obtain ch where u: "u = a\<lparr>searchParams :=
            (if res \<noteq> None then params_set ''resource'' (href (the res)) else (\<lambda>q. q))
            ((if (case sc of None \<Rightarrow> False | Some x \<Rightarrow> includes_str x ''offline_access'')
              then params_append ''prompt'' ''consent'' else (\<lambda>q. q))
            ((if truthy sc then params_set ''scope'' (the sc) else (\<lambda>q. q))
            ((if truthy st then params_set ''state'' (the st) else (\<lambda>q. q))
            (params_set ''redirect_uri'' (String_of r)
            (params_set ''code_challenge_method'' ''S256''
            (params_set ''code_challenge'' (snd ch)
            (params_set ''client_id'' (client_id ci)
            (params_set ''response_type'' ''code'' (searchParams a)))))))))\<rparr>"
    by (auto simp: await_def pkceChallenge_def return_def)
  show ?thesis
    apply (rule exI [of _ a])
    apply (rule exI)
    apply (intro conjI)
      apply (rule b)
     apply (rule u)
    apply (simp add: prompt_in_params_set params_append_def)
    done
qed

text \<open>
  C8. The claim reads: the query of the authorization URL holds \<^verbatim>\<open>prompt=consent\<close> exactly
  when the scope string contains the token \<^verbatim>\<open>offline_access\<close>. What the code does in
  every successful call: the query holds \<^verbatim>\<open>prompt=consent\<close> exactly when the scope
  string contains \<^verbatim>\<open>offline_access\<close> as a substring, or the URL it started from had that
  parameter already. A scope token that merely contains \<^verbatim>\<open>offline_access\<close> therefore
  adds the parameter too.
\<close>

theorem startAuthorization_prompt_consent:
  assumes "startAuthorization E authorizationServerUrl metadata clientInformation' redirectUrl'
             scope' state' resource' w = (Inr (authorizationUrl, codeVerifier'), w')"
  shows "\<exists>a. authorization_base E authorizationServerUrl metadata = Inr a
           \<and> ((''prompt'', ''consent'') \<in> set (searchParams authorizationUrl) \<longleftrightarrow>
                 (case scope' of None \<Rightarrow> False | Some x \<Rightarrow> includes_str x ''offline_access'')
                 \<or> (''prompt'', ''consent'') \<in> set (searchParams a))"
  using startAuthorization_Inr [OF assms] by auto

text \<open>
  C7 (amended). When metadata is present and its authorization endpoint parses as a
  URL, startAuthorization fails with the error of an incompatible server unless
  \<^verbatim>\<open>code\<close> is among the response types and \<^verbatim>\<open>S256\<close> among the code challenge methods,
  and otherwise succeeds with the authorization endpoint as the URL (scheme, host, path
  and fragment; the query gains the parameters). When the endpoint does not parse, the
  call fails with the \<^verbatim>\<open>TypeError\<close> of \<^verbatim>\<open>new URL\<close>, whatever the metadata supports. When
  metadata is absent, the URL is \<^verbatim>\<open>/authorize\<close> at the origin of the server URL: the path
  of the server URL is dropped.
\<close>

theorem startAuthorization_endpoint:
  fixes w :: "'p world" and E :: env and authorizationServerUrl :: StringOrURL
    and metadata :: "AuthorizationServerMetadata option"
    and clientInformation' :: OAuthClientInformation and redirectUrl' :: StringOrURL
    and scope' state' :: "string option" and resource' :: "URL option"
  defines "result \<equiv> fst (startAuthorization E authorizationServerUrl metadata clientInformation'
      redirectUrl' scope' state' resource' w)"
  shows "(\<forall>m a. metadata = Some m \<and> URL_parse E (authorization_endpoint m) = Inr a \<longrightarrow>
            (''code'' \<notin> set (response_types_supported m) \<longrightarrow>
               result = Inl (Error (IncompatibleResponseType ''code'')))
          \<and> (''code'' \<in> set (response_types_supported m) \<and> \<not> supports_S256 m \<longrightarrow>
               result = Inl (Error (IncompatibleChallengeMethod ''S256'')))
          \<and> (''code'' \<in> set (response_types_supported m) \<and> supports_S256 m \<longrightarrow>
               (\<exists>u v. result = Inr (u, v) \<and> scheme u = scheme a \<and> host u = host a
                  \<and> pathname u = pathname a \<and> hash u = hash a)))
    \<and> (\<forall>m e. metadata = Some m \<and> URL_parse E (authorization_endpoint m) = Inl e \<longrightarrow>
            result = Inl e)
    \<and> (\<forall>b. metadata = None \<and> URL_new E authorizationServerUrl = Inr b \<longrightarrow>
            (\<exists>u v. result = Inr (u, v) \<and> scheme u = scheme b \<and> host u = host b
               \<and> pathname u = ''/authorize'' \<and> hash u = []))"
proof -
  have t: "URL_tail s h ''/authorize'' =
      \<lparr>scheme = s, host = h, pathname = ''/authorize'', searchParams = [], hash = []\<rparr>" for s h
    by (intro URL_tail_path) (simp_all add: is_qf_def)
  have 1: "\<forall>m a. metadata = Some m \<and> URL_parse E (authorization_endpoint m) = Inr a \<longrightarrow>
            (''code'' \<notin> set (response_types_supported m) \<longrightarrow>
               result = Inl (Error (IncompatibleResponseType ''code'')))
          \<and> (''code'' \<in> set (response_types_supported m) \<and> \<not> supports_S256 m \<longrightarrow>
               result = Inl (Error (IncompatibleChallengeMethod ''S256'')))
          \<and> (''code'' \<in> set (response_types_supported m) \<and> supports_S256 m \<longrightarrow>
               (\<exists>u v. result = Inr (u, v) \<and> scheme u = scheme a \<and> host u = host a
                  \<and> pathname u = pathname a \<and> hash u = hash a))"
    unfolding result_def startAuthorization_def
    by (auto simp: Let_def await_def lift_def bindE_def pkceChallenge_def return_def
          supports_S256_def split: option.splits)
  have 2: "\<forall>m e. metadata = Some m \<and> URL_parse E (authorization_endpoint m) = Inl e \<longrightarrow>
            result = Inl e"
    unfolding result_def startAuthorization_def
    by (simp add: Let_def await_def lift_def bindE_def)
  have 3: "\<forall>b. metadata = None \<and> URL_new E authorizationServerUrl = Inr b \<longrightarrow>
            (\<exists>u v. result = Inr (u, v) \<and> scheme u = scheme b \<and> host u = host b
               \<and> pathname u = ''/authorize'' \<and> hash u = [])"
    unfolding result_def startAuthorization_def
    by (simp add: Let_def await_def lift_def pkceChallenge_def return_def URL_resolve_def
          startsWith_def t)
  show ?thesis using 1 2 3 by blast
qed

theorem startAuthorization_endpoint_witness:
  "URL_new (example_env always_404) (Str ''https://srv.example/mcp'') = Inr srv_mcp
   \<and> (\<exists>u v. fst (startAuthorization (example_env always_404) (Str ''https://srv.example/mcp'')
                 None example_client (Str ''https://app.example/callback'') None None None
                 (fresh_world ())) = Inr (u, v)
          \<and> scheme u = ''https'' \<and> host u = ''srv.example'' \<and> pathname u = ''/authorize''
          \<and> hash u = [])
   \<and> fst (startAuthorization (example_env always_404) (Str ''https://srv.example/mcp'')
            (Some (example_metadata\<lparr>response_types_supported := [''token'']\<rparr>))
            example_client (Str ''https://app.example/callback'') None None None
            (fresh_world ())) = Inl (Error (IncompatibleResponseType ''code''))"
proof -
  have h: "URL_new (example_env always_404) (Str ''https://srv.example/mcp'') = Inr srv_mcp" by code_simp
  have 1: "\<exists>u v. fst (startAuthorization (example_env always_404) (Str ''https://srv.example/mcp'')
                 None example_client (Str ''https://app.example/callback'') None None None
                 (fresh_world ())) = Inr (u, v)
          \<and> scheme u = ''https'' \<and> host u = ''srv.example'' \<and> pathname u = ''/authorize''
          \<and> hash u = []"
    using startAuthorization_endpoint [where metadata = None
        and authorizationServerUrl = "Str ''https://srv.example/mcp''"
        and E = "example_env always_404" and clientInformation' = example_client
        and redirectUrl' = "Str ''https://app.example/callback''" and scope' = None
        and state' = None and resource' = None and w = "fresh_world ()"] h
    by (simp add: srv_mcp_def)
  have p: "URL_parse (example_env always_404) (authorization_endpoint (example_metadata\<lparr>response_types_supported := [''token'']\<rparr>))
      = Inr \<lparr>scheme = ''https'', host = ''auth.example'', pathname = ''/authorize'',
             searchParams = [], hash = []\<rparr>"
    by code_simp
  have 2: "fst (startAuthorization (example_env always_404) (Str ''https://srv.example/mcp'')
            (Some (example_metadata\<lparr>response_types_supported := [''token'']\<rparr>))
            example_client (Str ''https://app.example/callback'') None None None
            (fresh_world ())) = Inl (Error (IncompatibleResponseType ''code''))"
    using startAuthorization_endpoint
       [where metadata = "Some (example_metadata\<lparr>response_types_supported := [''token'']\<rparr>)"
        and authorizationServerUrl = "Str ''https://srv.example/mcp''"
        and E = "example_env always_404" and clientInformation' = example_client
        and redirectUrl' = "Str ''https://app.example/callback''" and scope' = None
        and state' = None and resource' = None and w = "fresh_world ()"] p
    by simp
  show ?thesis using h 1 2 by blast
qed

text \<open>
  The claim as first stated fails twice. Without metadata and with the server URL
  \<^verbatim>\<open>https://srv.example/mcp\<close> the authorization URL is
  \<^verbatim>\<open>https://srv.example/authorize\<close>, not the server URL followed by \<^verbatim>\<open>/authorize\<close>. With
  metadata whose authorization endpoint is not an absolute URL and whose response types
  lack \<^verbatim>\<open>code\<close>, the call fails with the \<^verbatim>\<open>TypeError\<close> of \<^verbatim>\<open>new URL\<close>, which is thrown
  before the response types are looked at.
\<close>

theorem startAuthorization_endpoint_counterexample:
  "map_sum id (\<lambda>(u, v). origin u @ pathname u)
     (fst (startAuthorization (example_env always_404) (Str ''https://srv.example/mcp'')
            None example_client (Str ''https://app.example/callback'') None None None
            (fresh_world ()))) = Inr ''https://srv.example/authorize''
   \<and> ''https://srv.example/authorize'' \<noteq> ''https://srv.example/mcp'' @ ''/authorize''
   \<and> fst (startAuthorization (example_env always_404) (Str ''https://srv.example/mcp'')
            (Some (example_metadata\<lparr>authorization_endpoint := ''/authorize'',
                                    response_types_supported := [''token'']\<rparr>))
            example_client (Str ''https://app.example/callback'') None None None
            (fresh_world ())) = Inl (TypeError ''Invalid URL'')"
  by code_simp

text \<open>
  The scope \<^verbatim>\<open>openid offline_access_audit\<close> has the tokens \<^verbatim>\<open>openid\<close> and
  \<^verbatim>\<open>offline_access_audit\<close>, and the authorization URL gets \<^verbatim>\<open>prompt=consent\<close>.
\<close>

theorem startAuthorization_prompt_consent_witness:
  "startAuthorization (example_env always_404) (Str ''https://auth.example'') None
      example_client (Str ''https://app.example/callback'')
      (Some ''openid offline_access_audit'') None None (fresh_world ())
     = (Inr (\<lparr>scheme = ''https'', host = ''auth.example'', pathname = ''/authorize'',
              searchParams =
                [(''response_type'', ''code''), (''client_id'', ''abc''),
                 (''code_challenge'', ''challenge-0''), (''code_challenge_method'', ''S256''),
                 (''redirect_uri'', ''https://app.example/callback''),
                 (''scope'', ''openid offline_access_audit''), (''prompt'', ''consent'')],
              hash = []\<rparr>, ''verifier-0''),
        \<lparr>session = (), requests = [], challenges = 1\<rparr>)
   \<and> split_on CHR '' '' ''openid offline_access_audit'' = [''openid'', ''offline_access_audit'']
   \<and> ''offline_access'' \<notin> set (split_on CHR '' '' ''openid offline_access_audit'')
   \<and> includes_str ''openid offline_access_audit'' ''offline_access''
   \<and> authorization_base (example_env always_404) (Str ''https://auth.example'') None
       = Inr \<lparr>scheme = ''https'', host = ''auth.example'', pathname = ''/authorize'',
              searchParams = [], hash = []\<rparr>"
proof -
  let ?u = "\<lparr>scheme = ''https'', host = ''auth.example'', pathname = ''/authorize'',
              searchParams =
                [(''response_type'', ''code''), (''client_id'', ''abc''),
                 (''code_challenge'', ''challenge-0''), (''code_challenge_method'', ''S256''),
                 (''redirect_uri'', ''https://app.example/callback''),
                 (''scope'', ''openid offline_access_audit''), (''prompt'', ''consent'')],
              hash = []\<rparr>"
  have run: "startAuthorization (example_env always_404) (Str ''https://auth.example'') None
      example_client (Str ''https://app.example/callback'')
      (Some ''openid offline_access_audit'') None None (fresh_world ())
     = (Inr (?u, ''verifier-0''), \<lparr>session = (), requests = [], challenges = 1\<rparr>)"
    by code_simp
  have s: "split_on CHR '' '' ''openid offline_access_audit'' = [''openid'', ''offline_access_audit'']"
    by code_simp
  have b: "authorization_base (example_env always_404) (Str ''https://auth.example'') None
       = Inr \<lparr>scheme = ''https'', host = ''auth.example'', pathname = ''/authorize'',
              searchParams = [], hash = []\<rparr>"
    by code_simp
  have i: "includes_str ''openid offline_access_audit'' ''offline_access''"
    using startAuthorization_prompt_consent [OF run] b by simp
  show ?thesis using run s b i by simp
qed

subsection \<open>Recovery in the entry point\<close>

lemma has_code_unique: "has_code c e \<Longrightarrow> has_code c' e \<Longrightarrow> c = c'"
  by (cases e) (auto simp: has_code_def)

lemma try_catch_eq:
  "try_catch m h w =
     (case fst (m w) of Inl e \<Rightarrow> h e (snd (m w)) | Inr x \<Rightarrow> m w)"
  by (cases "m w") (auto simp: try_catch_def split: sum.splits)

lemma await_eq:
  "await m f w = (case m w of (Inl e, w') \<Rightarrow> (Inl e, w') | (Inr x, w') \<Rightarrow> f x w')"
  by (simp add: await_def)

text \<open>
  C6. The entry point \<open>auth\<close> runs the inner flow once. When the inner flow returns, so
  does \<open>auth\<close>, with nothing invalidated. Exactly when the inner flow throws an
  \<^verbatim>\<open>InvalidClientError\<close> or an \<^verbatim>\<open>UnauthorizedClientError\<close>, it asks the provider to
  invalidate the scope \<^verbatim>\<open>all\<close> and runs the inner flow once more; exactly when it throws
  an \<^verbatim>\<open>InvalidGrantError\<close>, it does so with the scope \<^verbatim>\<open>tokens\<close>; any other error is
  thrown on unchanged. The outcome of the second run, a result or an error, is the
  outcome of \<open>auth\<close>: there is no further invalidation and no third run.
  (Invalidation is the provider's optional method \<^verbatim>\<open>invalidateCredentials\<close>: without
  it nothing is invalidated before the second run, and if it throws, its error is the
  outcome.)
\<close>

theorem auth_recovery:
  fixes w :: "'p world" and E :: env and provider :: "'p OAuthClientProvider"
    and options :: auth_options
  defines "first \<equiv> authInternal E provider options w"
  shows "(\<forall>r. fst first = Inr r \<longrightarrow> auth E provider options w = first)
    \<and> (\<forall>e. fst first = Inl e \<and> (is_InvalidClientError e \<or> is_UnauthorizedClientError e) \<longrightarrow>
          auth E provider options w =
            (case invalidate provider scope_all (snd first) of
               (Inl e', w2) \<Rightarrow> (Inl e', w2)
             | (Inr u, w2) \<Rightarrow> authInternal E provider options w2))
    \<and> (\<forall>e. fst first = Inl e \<and> is_InvalidGrantError e \<longrightarrow>
          auth E provider options w =
            (case invalidate provider scope_tokens (snd first) of
               (Inl e', w2) \<Rightarrow> (Inl e', w2)
             | (Inr u, w2) \<Rightarrow> authInternal E provider options w2))
    \<and> (\<forall>e. fst first = Inl e \<and> \<not> is_InvalidClientError e \<and> \<not> is_UnauthorizedClientError e
            \<and> \<not> is_InvalidGrantError e \<longrightarrow>
          auth E provider options w = first)
    \<and> (\<forall>method sc w1. invalidateCredentials provider = Some method \<longrightarrow>
          invalidate provider sc w1 =
            (fst (method sc (session w1)), w1\<lparr>session := snd (method sc (session w1))\<rparr>))
    \<and> (\<forall>sc w1. invalidateCredentials provider = None \<longrightarrow>
          invalidate provider sc w1 = (Inr (), w1))"
proof -
  have 1: "\<forall>r. fst first = Inr r \<longrightarrow> auth E provider options w = first"
    unfolding first_def auth_def by (simp add: try_catch_eq)
  have ic: "\<not> is_InvalidClientError e \<and> \<not> is_UnauthorizedClientError e"
    if "is_InvalidGrantError e" for e
    using that has_code_unique [of "''invalid_grant''" e]
    by (auto simp: is_InvalidGrantError_def is_InvalidClientError_def
          is_UnauthorizedClientError_def)
  have 2: "\<forall>e. fst first = Inl e \<and> (is_InvalidClientError e \<or> is_UnauthorizedClientError e) \<longrightarrow>
          auth E provider options w =
            (case invalidate provider scope_all (snd first) of
               (Inl e', w2) \<Rightarrow> (Inl e', w2)
             | (Inr u, w2) \<Rightarrow> authInternal E provider options w2)"
    unfolding first_def auth_def by (auto simp: try_catch_eq await_eq)
  have 3: "\<forall>e. fst first = Inl e \<and> is_InvalidGrantError e \<longrightarrow>
          auth E provider options w =
            (case invalidate provider scope_tokens (snd first) of
               (Inl e', w2) \<Rightarrow> (Inl e', w2)
             | (Inr u, w2) \<Rightarrow> authInternal E provider options w2)"
    unfolding first_def auth_def using ic by (auto simp: try_catch_eq await_eq)
  have 4: "\<forall>e. fst first = Inl e \<and> \<not> is_InvalidClientError e \<and> \<not> is_UnauthorizedClientError e
            \<and> \<not> is_InvalidGrantError e \<longrightarrow>
          auth E provider options w = first"
    unfolding first_def auth_def
    by (auto simp: try_catch_eq throw_def intro: prod_eqI)
  have 5: "\<forall>method sc w1. invalidateCredentials provider = Some method \<longrightarrow>
          invalidate provider sc w1 =
            (fst (method sc (session w1)), w1\<lparr>session := snd (method sc (session w1))\<rparr>)"
    by (simp add: invalidate_def provider_call_def split: prod.splits)
  have 6: "\<forall>sc w1. invalidateCredentials provider = None \<longrightarrow>
          invalidate provider sc w1 = (Inr (), w1)"
    by (simp add: invalidate_def return_def)
  show ?thesis using 1 2 3 4 5 6 by blast
qed

theorem auth_recovery_witness:
  "fst (authInternal (example_env rejecting_server) example_provider example_options
          (fresh_world session_with_tokens)) = Inl (OAuthError ''invalid_grant'' [] None)
   \<and> is_InvalidGrantError (OAuthError ''invalid_grant'' [] None)
   \<and> fst (auth (example_env rejecting_server) example_provider example_options
            (fresh_world session_with_tokens)) = Inr REDIRECT
   \<and> stored_tokens (session (snd (auth (example_env rejecting_server) example_provider
         example_options (fresh_world session_with_tokens)))) = None"
proof -
  let ?E = "example_env rejecting_server"
  let ?w = "fresh_world session_with_tokens"
  let ?first = "authInternal ?E example_provider example_options ?w"
  let ?second = "case invalidate example_provider scope_tokens (snd ?first) of
               (Inl e', w2) \<Rightarrow> (Inl e', w2)
             | (Inr u, w2) \<Rightarrow> authInternal ?E example_provider example_options w2"
  have f: "fst ?first = Inl (OAuthError ''invalid_grant'' [] None)" by code_simp
  have g: "is_InvalidGrantError (OAuthError ''invalid_grant'' [] None)" by code_simp
  have a: "auth ?E example_provider example_options ?w = ?second"
    using auth_recovery [of ?E example_provider example_options ?w] f g by blast
  have r: "fst ?second = Inr REDIRECT" by code_simp
  have t: "stored_tokens (session (snd ?second)) = None" by code_simp
  show ?thesis using f g r t unfolding a by simp
qed

subsection \<open>The fetch function of each request\<close>

named_theorems issues_intros


lemma issues_throw [issues_intros]: "issues P (throw e)"
  by (simp add: issues_def throw_def)

lemma issues_lift [issues_intros]: "issues P (lift r)"
  by (simp add: issues_def lift_def)

lemma issues_provider_call [issues_intros]: "issues P (provider_call m)"
  by (simp add: issues_def provider_call_def split: prod.splits)

lemma issues_pkceChallenge [issues_intros]: "issues P (pkceChallenge E)"
  by (simp add: issues_def pkceChallenge_def)


lemma issues_await [issues_intros]:
  assumes "issues P m" and "\<And>x. issues P (g x)"
  shows "issues P (await m g)"
  unfolding issues_def
proof
  fix w
  obtain r w1 where m: "m w = (r, w1)" by (cases "m w")
  from assms(1) obtain n1 where n1: "requests w1 = requests w @ n1" "list_all P n1"
    unfolding issues_def using m by (metis snd_conv)
  show "\<exists>new. requests (snd (await m g w)) = requests w @ new \<and> list_all P new"
  proof (cases r)
    case (Inl e)
    then show ?thesis using m n1 by (auto simp: await_def)
  next
    case (Inr x)
    from assms(2) [of x] obtain n2 where
      "requests (snd (g x w1)) = requests w1 @ n2" "list_all P n2"
      unfolding issues_def by blast
    then have "requests (snd (await m g w)) = requests w @ (n1 @ n2) \<and> list_all P (n1 @ n2)"
      using m Inr n1 by (simp add: await_def)
    then show ?thesis by blast
  qed
qed

lemma issues_try_catch [issues_intros]:
  assumes "issues P m" and "\<And>e. issues P (h e)"
  shows "issues P (try_catch m h)"
  unfolding issues_def
proof
  fix w
  obtain r w1 where m: "m w = (r, w1)" by (cases "m w")
  from assms(1) obtain n1 where n1: "requests w1 = requests w @ n1" "list_all P n1"
    unfolding issues_def using m by (metis snd_conv)
  show "\<exists>new. requests (snd (try_catch m h w)) = requests w @ new \<and> list_all P new"
  proof (cases r)
    case (Inr x)
    then show ?thesis using m n1 by (auto simp: try_catch_def)
  next
    case (Inl e)
    from assms(2) [of e] obtain n2 where
      "requests (snd (h e w1)) = requests w1 @ n2" "list_all P n2"
      unfolding issues_def by blast
    then have "requests (snd (try_catch m h w)) = requests w @ (n1 @ n2)
        \<and> list_all P (n1 @ n2)"
      using m Inl n1 by (simp add: try_catch_def)
    then show ?thesis by blast
  qed
qed

lemma issues_if [issues_intros]:
  "issues P a \<Longrightarrow> issues P b \<Longrightarrow> issues P (if c then a else b)"
  by simp

lemma issues_case_option [issues_intros]:
  "issues P a \<Longrightarrow> (\<And>x. issues P (b x)) \<Longrightarrow> issues P (case v of None \<Rightarrow> a | Some x \<Rightarrow> b x)"
  by (cases v) simp_all

lemma issues_case_prod [issues_intros]:
  "(\<And>a b. issues P (f a b)) \<Longrightarrow> issues P (case v of (a, b) \<Rightarrow> f a b)"
  by (cases v) simp















end
